theory Spec2Isabelle
  imports Complex_Main
begin

section \<open>JavaScript values used by the program\<close>

text \<open>
  A JavaScript number is an IEEE 754 double. \<open>Number q\<close> stands for the finite double
  whose exact value is the rational \<open>q\<close> (both zeros are \<open>Number 0\<close>: the program never
  tells them apart); the three other constructors are the non-finite doubles.
\<close>

datatype jsnum = Number rat | NaN | Infinity | NegInfinity

definition pow2 :: "int \<Rightarrow> rat" where
  "pow2 e = (if 0 \<le> e then 2 ^ nat e else 1 / 2 ^ nat (- e))"

text \<open>The number of binary digits of a positive integer.\<close>

function bitlen :: "int \<Rightarrow> int" where
  "bitlen n = (if n \<le> 0 then 0 else 1 + bitlen (n div 2))"
  by pat_completeness auto
termination
  by (relation "measure nat") auto

text \<open>\<open>ilog2 a\<close> is the exponent \<open>e\<close> with \<open>2 ^ e \<le> a < 2 ^ (e + 1)\<close>, for \<open>a > 0\<close>.\<close>

definition ilog2 :: "rat \<Rightarrow> int" where
  "ilog2 a =
     (let (p, q) = quotient_of a;
          d = bitlen p - bitlen q
      in if pow2 d \<le> a then d else d - 1)"

text \<open>Rounding to the nearest integer, ties to the even one.\<close>

definition round_half_even :: "rat \<Rightarrow> int" where
  "round_half_even x =
     (let f = \<lfloor>x\<rfloor>; r = x - of_int f
      in if r < 1 / 2 then f
         else if 1 / 2 < r then f + 1
         else if even f then f else f + 1)"

text \<open>
  The double nearest to a rational (round to nearest, ties to even): 53 significant bits
  \<open>m\<close> at the spacing \<open>2 ^ q\<close>, the smallest spacing being \<open>2 ^ -1074\<close>. The result
  \<open>m * 2 ^ q\<close> is infinite when it reaches \<open>2 ^ 1024\<close>, that is when \<open>q\<close> is above
  971, or is 971 and \<open>m\<close> was rounded up to \<open>2 ^ 53\<close>.
\<close>

definition round_double :: "rat \<Rightarrow> jsnum" where
  "round_double x =
     (if x = 0 then Number 0
      else
        let a = \<bar>x\<bar>;
            q = max (ilog2 a - 52) (- 1074);
            m = round_half_even (a / pow2 q)
        in if 971 < q \<or> (q = 971 \<and> 2 ^ 53 \<le> m)
           then (if 0 < x then Infinity else NegInfinity)
           else Number (if 0 < x then of_int m * pow2 q else - (of_int m * pow2 q)))"

text \<open>The operator \<open>*\<close> on numbers.\<close>

fun js_times :: "jsnum \<Rightarrow> jsnum \<Rightarrow> jsnum" where
  "js_times (Number a) (Number b) = round_double (a * b)"
| "js_times NaN _ = NaN"
| "js_times _ NaN = NaN"
| "js_times (Number a) Infinity =
     (if a = 0 then NaN else if 0 < a then Infinity else NegInfinity)"
| "js_times (Number a) NegInfinity =
     (if a = 0 then NaN else if 0 < a then NegInfinity else Infinity)"
| "js_times Infinity (Number b) =
     (if b = 0 then NaN else if 0 < b then Infinity else NegInfinity)"
| "js_times NegInfinity (Number b) =
     (if b = 0 then NaN else if 0 < b then NegInfinity else Infinity)"
| "js_times Infinity Infinity = Infinity"
| "js_times Infinity NegInfinity = NegInfinity"
| "js_times NegInfinity Infinity = NegInfinity"
| "js_times NegInfinity NegInfinity = Infinity"

subsection \<open>Strings\<close>

text \<open>
  \<open>String(n)\<close> for a non-negative integer, \<open>padStart\<close>, and the line feed the template
  literals write as \<open>\n\<close>.
\<close>

definition digit :: "nat \<Rightarrow> char" where
  "digit d = ''0123456789'' ! d"

fun String_nat :: "nat \<Rightarrow> string" where
  "String_nat n =
     (if n < 10 then [digit n] else String_nat (n div 10) @ [digit (n mod 10)])"

declare String_nat.simps [simp del]

definition padStart :: "nat \<Rightarrow> char \<Rightarrow> string \<Rightarrow> string" where
  "padStart targetLength c s = replicate (targetLength - length s) c @ s"

text \<open>
  \<open>String(x)\<close> of what a \<open>getUTC...\<close> method returns: a non-negative integer, or \<open>NaN\<close>
  on an invalid date (\<open>None\<close>).
\<close>

definition String_field :: "nat option \<Rightarrow> string" where
  "String_field v = (case v of None \<Rightarrow> ''NaN'' | Some n \<Rightarrow> String_nat n)"

subsection \<open>Dates\<close>

text \<open>
  A \<open>Date\<close> holds a time value: an integral number of milliseconds since the epoch, at
  most \<open>8.64e15\<close> in magnitude, or \<open>NaN\<close> (an invalid date, here \<open>None\<close>).

  The time zone of the process, as the language specification sees it: the offset of
  local time from UTC in milliseconds, at a time value (\<open>LocalTZA(t, true)\<close>) and at a
  local time (\<open>LocalTZA(t, false)\<close>). Offsets stay below a day, so that the sums below
  are either exact in double arithmetic or far outside the range of time values.
\<close>

record zone =
  tza_utc :: "int \<Rightarrow> int"
  tza_local :: "int \<Rightarrow> int"

definition LocalTime :: "zone \<Rightarrow> int \<Rightarrow> int" where
  "LocalTime z t = t + tza_utc z t"

definition UTC :: "zone \<Rightarrow> int \<Rightarrow> int" where
  "UTC z t = t - tza_local z t"

definition Day :: "int \<Rightarrow> int" where
  "Day t = t div 86400000"

definition HourFromTime :: "int \<Rightarrow> int" where
  "HourFromTime t = (t div 3600000) mod 24"

definition MinFromTime :: "int \<Rightarrow> int" where
  "MinFromTime t = (t div 60000) mod 60"

definition SecFromTime :: "int \<Rightarrow> int" where
  "SecFromTime t = (t div 1000) mod 60"

definition msFromTime :: "int \<Rightarrow> int" where
  "msFromTime t = t mod 1000"

definition MakeTime :: "int \<Rightarrow> int \<Rightarrow> int \<Rightarrow> int \<Rightarrow> int" where
  "MakeTime hour minute sec milli = hour * 3600000 + minute * 60000 + sec * 1000 + milli"

definition MakeDate :: "int \<Rightarrow> int \<Rightarrow> int" where
  "MakeDate day time = day * 86400000 + time"

definition TimeClip :: "int \<Rightarrow> int option" where
  "TimeClip time = (if \<bar>time\<bar> \<le> 8640000000000000 then Some time else None)"

definition truncate_rat :: "rat \<Rightarrow> int" where
  "truncate_rat q = (if 0 \<le> q then \<lfloor>q\<rfloor> else - \<lfloor>- q\<rfloor>)"

text \<open>
  \<open>new Date(0)\<close> followed by \<open>setMilliseconds(ms)\<close>. The method works in local time: it
  takes the local time of the epoch, keeps its day, hour, minute and second, puts the
  argument, truncated towards zero, in the place of the milliseconds, and converts the
  result back to UTC. An argument that is not finite gives an invalid date.
\<close>

definition setMilliseconds0 :: "zone \<Rightarrow> jsnum \<Rightarrow> int option" where
  "setMilliseconds0 z ms =
     (case ms of
        Number q \<Rightarrow>
          (let t = LocalTime z 0;
               time = MakeTime (HourFromTime t) (MinFromTime t) (SecFromTime t) (truncate_rat q)
           in TimeClip (UTC z (MakeDate (Day t) time)))
      | _ \<Rightarrow> None)"

definition getUTCHours :: "int option \<Rightarrow> nat option" where
  "getUTCHours d = map_option (\<lambda>t. nat (HourFromTime t)) d"

definition getUTCMinutes :: "int option \<Rightarrow> nat option" where
  "getUTCMinutes d = map_option (\<lambda>t. nat (MinFromTime t)) d"

definition getUTCSeconds :: "int option \<Rightarrow> nat option" where
  "getUTCSeconds d = map_option (\<lambda>t. nat (SecFromTime t)) d"

definition getUTCMilliseconds :: "int option \<Rightarrow> nat option" where
  "getUTCMilliseconds d = map_option (\<lambda>t. nat (msFromTime t)) d"

section \<open>The format helpers\<close>

text \<open>The time zone of the process is a parameter of everything that builds a date.\<close>

definition formatSRTTime :: "zone \<Rightarrow> jsnum \<Rightarrow> string" where
  "formatSRTTime z seconds =
     (let date = setMilliseconds0 z (js_times seconds (Number 1000));
          hours = padStart 2 CHR ''0'' (String_field (getUTCHours date));
          minutes = padStart 2 CHR ''0'' (String_field (getUTCMinutes date));
          secs = padStart 2 CHR ''0'' (String_field (getUTCSeconds date));
          milliseconds = padStart 3 CHR ''0'' (String_field (getUTCMilliseconds date))
      in hours @ '':'' @ minutes @ '':'' @ secs @ '','' @ milliseconds)"

text \<open>
  \<open>Math.floor(date.getUTCMilliseconds() / 10)\<close>: the component is an integer from 0 to
  999 (or \<open>NaN\<close>), so the floor of the quotient is the integer quotient.
\<close>

definition formatLRCTime :: "zone \<Rightarrow> jsnum \<Rightarrow> string" where
  "formatLRCTime z seconds =
     (let date = setMilliseconds0 z (js_times seconds (Number 1000));
          minutes = padStart 2 CHR ''0'' (String_field (getUTCMinutes date));
          secs = padStart 2 CHR ''0'' (String_field (getUTCSeconds date));
          hundredths = padStart 2 CHR ''0''
            (String_field (map_option (\<lambda>ms. ms div 10) (getUTCMilliseconds date)))
      in ''['' @ minutes @ '':'' @ secs @ ''.'' @ hundredths @ '']'')"

section \<open>The converters\<close>

record aligned_word =
  word :: string
  start_s :: jsnum
  end_s :: jsnum

text \<open>
  \<open>Array.prototype.forEach\<close> with a callback that updates a variable of the enclosing
  function: the callback receives the element and its index, and the variable is passed
  through as state.
\<close>

fun forEach :: "('a \<Rightarrow> nat \<Rightarrow> 's \<Rightarrow> 's) \<Rightarrow> 'a list \<Rightarrow> nat \<Rightarrow> 's \<Rightarrow> 's" where
  "forEach f [] i s = s"
| "forEach f (x # xs) i s = forEach f xs (Suc i) (f x i s)"

definition convertToSRT :: "zone \<Rightarrow> aligned_word list \<Rightarrow> string" where
  "convertToSRT z alignedWords =
     forEach (\<lambda>w i srtContent.
        srtContent @
          (String_nat (i + 1) @ ''\<newline>'' @
           formatSRTTime z (start_s w) @ '' --> '' @ formatSRTTime z (end_s w) @ ''\<newline>'' @
           word w @ ''\<newline>\<newline>''))
       alignedWords 0 ''''"

definition convertToLRC :: "zone \<Rightarrow> aligned_word list \<Rightarrow> string" where
  "convertToLRC z alignedWords =
     forEach (\<lambda>w i lrcContent.
        lrcContent @ (formatLRCTime z (start_s w) @ word w @ ''\<newline>''))
       alignedWords 0 ''''"

section \<open>The world outside the program\<close>

text \<open>
  Strings are lists of 8-bit characters. \<open>trim\<close> removes the ASCII white space and line
  terminators from both ends, \<open>toLowerCase\<close> maps the ASCII capitals; the Unicode white
  space and letters beyond ASCII lie outside this model.
\<close>

definition is_space :: "char \<Rightarrow> bool" where
  "is_space c = (c \<in> set [CHR 0x09, CHR 0x0A, CHR 0x0B, CHR 0x0C, CHR 0x0D, CHR 0x20])"

definition trim :: "string \<Rightarrow> string" where
  "trim s = rev (dropWhile is_space (rev (dropWhile is_space s)))"

definition lower_char :: "char \<Rightarrow> char" where
  "lower_char c =
     (case map_of (zip ''ABCDEFGHIJKLMNOPQRSTUVWXYZ'' ''abcdefghijklmnopqrstuvwxyz'') c of
        Some d \<Rightarrow> d
      | None \<Rightarrow> c)"

definition toLowerCase :: "string \<Rightarrow> string" where
  "toLowerCase s = map lower_char s"

text \<open>\<open>s.split(',')\<close>: the pieces between the commas; never an empty array.\<close>

fun split_comma :: "string \<Rightarrow> string list" where
  "split_comma [] = [[]]"
| "split_comma (c # cs) =
     (if c = CHR '','' then [] # split_comma cs
      else (case split_comma cs of
              p # ps \<Rightarrow> (c # p) # ps
            | [] \<Rightarrow> [[c]]))"

text \<open>
  The value of the field \<open>aligned_words\<close> in a parsed body. An array holds aligned
  words, as the data model of the service has it; the other constructors are the JSON
  values that are not arrays. JavaScript counts \<open>null\<close>, \<open>false\<close>, zero, \<open>NaN\<close> and
  the empty string as false, and every array and object as true.
\<close>

datatype field_value =
    Word_array "aligned_word list"
  | JNull
  | JBool bool
  | JNumber jsnum
  | JString string
  | JObject

fun truthy :: "field_value \<Rightarrow> bool" where
  "truthy (Word_array ws) = True"
| "truthy JNull = False"
| "truthy (JBool b) = b"
| "truthy (JNumber n) = (n \<noteq> Number 0 \<and> n \<noteq> NaN)"
| "truthy (JString s) = (s \<noteq> '''')"
| "truthy JObject = True"

text \<open>
  The data of a response: an object, with its field \<open>aligned_words\<close> when it has one,
  or anything else (a body that is not JSON and stays a string, or JSON that is not an
  object), where the field reads as \<open>undefined\<close>.
\<close>

datatype payload = Not_an_object | Object "field_value option"

text \<open>
  What comes back for one GET: nothing at all, ever; a failure of the network; a response
  with its status and data; or a response with a status from 300 to 399 and a
  \<open>Location\<close> header, followed by what comes back from there.
\<close>

datatype http_reply =
    NoAnswer
  | NetworkFailure
  | Response nat payload
  | Redirect http_reply

text \<open>
  \<open>axios.get\<close> with the configuration the program passes (headers only; no time limit,
  no \<open>validateStatus\<close>, no \<open>maxRedirects\<close>). The library follows redirects up to its
  own maximum and fails without a response beyond it. The promise resolves with the
  response when the status is from 200 to 299; it rejects with an error whose
  \<open>response\<close> holds the status for any other status, and with an error without
  \<open>response\<close> when the network fails; it stays pending when nothing comes back.
\<close>

datatype axios_outcome = Resolved payload | Rejected "nat option" | Pending

fun axios_get :: "nat \<Rightarrow> http_reply \<Rightarrow> axios_outcome" where
  "axios_get maxRedirects NoAnswer = Pending"
| "axios_get maxRedirects NetworkFailure = Rejected None"
| "axios_get maxRedirects (Response status d) =
     (if 200 \<le> status \<and> status < 300 then Resolved d else Rejected (Some status))"
| "axios_get maxRedirects (Redirect r) =
     (case maxRedirects of 0 \<Rightarrow> Rejected None | Suc k \<Rightarrow> axios_get k r)"

text \<open>One constructor for each place where the program writes to the console.\<close>

datatype message =
    Created_empty_token
  | Question string
  | Found_saved_token string
  | Using_saved_token
  | New_token_saved
  | Token_saved_for_future_runs
  | Token_expired_or_invalid
  | Token_saved
  | Error_fetching string
  | Saved string
  | Fetching string
  | No_words_for string
  | Token_invalid_run_again
  | All_done

text \<open>
  The part of the world that the program changes: the answers that the operator at the
  terminal will still type, the console, the files (most recent write first, read with \<open>map_of\<close>), the
  directories, the requests sent so far as (song identifier, token), and how many times
  the clock was read.
\<close>

record world =
  stdin :: "string list"
  console :: "message list"
  disk :: "(string \<times> string) list"
  dirs :: "string list"
  requests :: "(string \<times> string) list"
  ticks :: nat

text \<open>
  The part that the program only observes: the reply to the \<open>k\<close>-th request, the clock
  (milliseconds since the epoch) at its \<open>k\<close>-th reading, the paths where writing a
  file fails, the time zone of the process, and the number of redirects that the HTTP
  client library follows.
\<close>

record env =
  remote :: "nat \<Rightarrow> string \<Rightarrow> string \<Rightarrow> http_reply"
  clock :: "nat \<Rightarrow> int"
  write_fails :: "string \<Rightarrow> bool"
  time_zone :: zone
  max_redirects :: nat

text \<open>
  A call returns a value, throws, or never returns (a question asked when standard input
  is at its end is never answered, and neither is a request when nothing comes back).
  \<open>Error\<close> objects are told apart by their message only.
\<close>

datatype js_error = TOKEN_INVALID | Other_error

datatype 'a outcome = Returns 'a world | Throws js_error world | Hangs world

definition and_then :: "'a outcome \<Rightarrow> ('a \<Rightarrow> world \<Rightarrow> 'b outcome) \<Rightarrow> 'b outcome" where
  "and_then m f =
     (case m of Returns a w \<Rightarrow> f a w | Throws e w \<Rightarrow> Throws e w | Hangs w \<Rightarrow> Hangs w)"

definition console_log :: "message \<Rightarrow> world \<Rightarrow> world" where
  "console_log m w = w\<lparr>console := console w @ [m]\<rparr>"

definition TOKEN_FILE :: string where
  "TOKEN_FILE = ''token.txt''"

definition existsSync :: "string \<Rightarrow> world \<Rightarrow> bool" where
  "existsSync p w = (case map_of (disk w) p of Some _ \<Rightarrow> True | None \<Rightarrow> p \<in> set (dirs w))"

definition writeFileSync :: "env \<Rightarrow> string \<Rightarrow> string \<Rightarrow> world \<Rightarrow> unit outcome" where
  "writeFileSync e p content w =
     (if write_fails e p then Throws Other_error w
      else Returns () (w\<lparr>disk := (p, content) # disk w\<rparr>))"

definition readFileSync :: "string \<Rightarrow> world \<Rightarrow> string" where
  "readFileSync p w = (case map_of (disk w) p of Some content \<Rightarrow> content | None \<Rightarrow> '''')"

text \<open>The statements at the top of the module, run before \<open>main\<close>.\<close>

definition module_init :: "env \<Rightarrow> world \<Rightarrow> unit outcome" where
  "module_init e w =
     (if \<not> existsSync TOKEN_FILE w
      then and_then (writeFileSync e TOKEN_FILE '''' w)
             (\<lambda>_ w. Returns () (console_log Created_empty_token w))
      else Returns () w)"

section \<open>Fetching\<close>

text \<open>
  \<open>res.data?.aligned_words\<close> is \<open>undefined\<close> (\<open>None\<close>) when the data is not an object or
  has no such field. The function returns the field as it is when it is truthy.
\<close>

definition aligned_words :: "payload \<Rightarrow> field_value option" where
  "aligned_words d = (case d of Not_an_object \<Rightarrow> None | Object field \<Rightarrow> field)"

definition fetchAlignedWords ::
    "env \<Rightarrow> string \<Rightarrow> string \<Rightarrow> world \<Rightarrow> field_value option outcome" where
  "fetchAlignedWords e songId token w =
     (let res = axios_get (max_redirects e) (remote e (length (requests w)) songId token);
          w = w\<lparr>requests := requests w @ [(songId, token)]\<rparr>
      in case res of
           Resolved d \<Rightarrow>
             (case aligned_words d of
                Some v \<Rightarrow> if truthy v then Returns (Some v) w else Returns None w
              | None \<Rightarrow> Returns None w)
         | Rejected response \<Rightarrow>
             if response = Some 401 then Throws TOKEN_INVALID w
             else Returns None (console_log (Error_fetching songId) w)
         | Pending \<Rightarrow> Hangs w)"

section \<open>Saving\<close>

text \<open>
  \<open>Date.prototype.toISOString\<close> of a time value, with the language specification's
  day arithmetic: the number of the day, the day on which a year starts, the year of a
  day (an estimate from the mean length of a year, corrected by one where needed), leap
  years, and the month (from 1) and date of a day within its year.
\<close>

definition DayFromYear :: "int \<Rightarrow> int" where
  "DayFromYear y =
     365 * (y - 1970) + (y - 1969) div 4 - (y - 1901) div 100 + (y - 1601) div 400"

definition YearFromDay :: "int \<Rightarrow> int" where
  "YearFromDay day =
     (let y = 1970 + (400 * day) div 146097
      in if day < DayFromYear y then y - 1
         else if DayFromYear (y + 1) \<le> day then y + 1
         else y)"

definition InLeapYear :: "int \<Rightarrow> int" where
  "InLeapYear y = (if y mod 4 = 0 \<and> (y mod 100 \<noteq> 0 \<or> y mod 400 = 0) then 1 else 0)"

definition month_and_date :: "int \<Rightarrow> int \<Rightarrow> nat \<times> int" where
  "month_and_date d leap =
     (if d < 31 then (1, d + 1)
      else if d < 59 + leap then (2, d - 30)
      else if d < 90 + leap then (3, d - 58 - leap)
      else if d < 120 + leap then (4, d - 89 - leap)
      else if d < 151 + leap then (5, d - 119 - leap)
      else if d < 181 + leap then (6, d - 150 - leap)
      else if d < 212 + leap then (7, d - 180 - leap)
      else if d < 243 + leap then (8, d - 211 - leap)
      else if d < 273 + leap then (9, d - 242 - leap)
      else if d < 304 + leap then (10, d - 272 - leap)
      else if d < 334 + leap then (11, d - 303 - leap)
      else (12, d - 333 - leap))"

definition pad_nat :: "nat \<Rightarrow> nat \<Rightarrow> string" where
  "pad_nat width n = padStart width CHR ''0'' (String_nat n)"

text \<open>Years outside 0 to 9999 are written with a sign and six digits.\<close>

definition iso_year :: "int \<Rightarrow> string" where
  "iso_year y =
     (if 0 \<le> y \<and> y \<le> 9999 then pad_nat 4 (nat y)
      else if y < 0 then ''-'' @ pad_nat 6 (nat (- y))
      else ''+'' @ pad_nat 6 (nat y))"

definition toISOString :: "int \<Rightarrow> string" where
  "toISOString t =
     (let day = t div 86400000;
          y = YearFromDay day;
          (m, d) = month_and_date (day - DayFromYear y) (InLeapYear y)
      in iso_year y @ ''-'' @ pad_nat 2 m @ ''-'' @ pad_nat 2 (nat d) @ ''T'' @
         pad_nat 2 (nat (t div 3600000 mod 24)) @ '':'' @
         pad_nat 2 (nat (t div 60000 mod 60)) @ '':'' @
         pad_nat 2 (nat (t div 1000 mod 60)) @ ''.'' @
         pad_nat 3 (nat (t mod 1000)) @ ''Z'')"

text \<open>\<open>.replace(/[:.]/g, '-')\<close>\<close>

definition replace_colons_dots :: "string \<Rightarrow> string" where
  "replace_colons_dots s = map (\<lambda>c. if c = CHR '':'' \<or> c = CHR ''.'' then CHR ''-'' else c) s"

text \<open>
  \<open>path.join\<close> of a directory and a name, for names without separators or dot segments.
\<close>

definition path_join :: "string \<Rightarrow> string \<Rightarrow> string" where
  "path_join dir name = dir @ ''/'' @ name"

definition fileName :: "string \<Rightarrow> string \<Rightarrow> string \<Rightarrow> string" where
  "fileName songId timestamp fileType =
     ''aligned_words_'' @ songId @ ''_'' @ timestamp @ ''.'' @ fileType"

definition saveFile :: "env \<Rightarrow> string \<Rightarrow> string \<Rightarrow> string \<Rightarrow> world \<Rightarrow> unit outcome" where
  "saveFile e content fileType songId w =
     (let timestamp = replace_colons_dots (toISOString (clock e (ticks w)));
          w = w\<lparr>ticks := Suc (ticks w)\<rparr>;
          outputDir = ''output'';
          w = (if \<not> existsSync outputDir w then w\<lparr>dirs := outputDir # dirs w\<rparr> else w);
          filePath = path_join outputDir (fileName songId timestamp fileType)
      in and_then (writeFileSync e filePath content w)
           (\<lambda>_ w. Returns () (console_log (Saved filePath) w)))"

section \<open>The token store\<close>

definition ask :: "string \<Rightarrow> world \<Rightarrow> string outcome" where
  "ask question w =
     (let w = console_log (Question question) w
      in case stdin w of
           [] \<Rightarrow> Hangs w
         | ans # rest \<Rightarrow> Returns ans (w\<lparr>stdin := rest\<rparr>))"

text \<open>
  The last part of \<open>loadToken\<close>, from the comment \<open>Validate token\<close> on: the probe, the
  question asked again when the probe throws \<open>TOKEN_INVALID\<close>, and the return.
\<close>

definition validate_token :: "env \<Rightarrow> string \<Rightarrow> world \<Rightarrow> string outcome" where
  "validate_token e token w =
     (case fetchAlignedWords e ''dummy-check'' token w of
        Returns _ w \<Rightarrow> Returns (trim token) w
      | Throws err w \<Rightarrow>
          if err = TOKEN_INVALID
          then
            and_then (ask ''Enter Bearer token: '' (console_log Token_expired_or_invalid w))
              (\<lambda>token w.
                 and_then (writeFileSync e TOKEN_FILE (trim token) w)
                   (\<lambda>_ w. Returns (trim token) (console_log Token_saved w)))
          else Returns (trim token) w
      | Hangs w \<Rightarrow> Hangs w)"

text \<open>
  The middle part: \<open>if (!token)\<close>, where \<open>token\<close> is \<open>null\<close> (\<open>None\<close>) or the saved,
  non-empty string.
\<close>

definition enter_if_missing :: "env \<Rightarrow> string option \<Rightarrow> world \<Rightarrow> string outcome" where
  "enter_if_missing e token w =
     (case token of
        Some t \<Rightarrow> validate_token e t w
      | None \<Rightarrow>
          and_then (ask ''Enter Bearer token: '' w)
            (\<lambda>token w.
               and_then (writeFileSync e TOKEN_FILE (trim token) w)
                 (\<lambda>_ w. validate_token e token (console_log Token_saved_for_future_runs w))))"

definition loadToken :: "env \<Rightarrow> world \<Rightarrow> string outcome" where
  "loadToken e w =
     (if existsSync TOKEN_FILE w \<and> trim (readFileSync TOKEN_FILE w) \<noteq> ''''
      then
        let saved = trim (readFileSync TOKEN_FILE w);
            w = console_log (Found_saved_token (take 15 saved)) w
        in and_then (ask ''Use this token? (Y/n): '' w)
             (\<lambda>choice w.
                if toLowerCase choice = ''n''
                then
                  and_then (ask ''Enter new Bearer token: '' w)
                    (\<lambda>token w.
                       and_then (writeFileSync e TOKEN_FILE (trim token) w)
                         (\<lambda>_ w. Returns (trim token) (console_log New_token_saved w)))
                else enter_if_missing e (Some saved) (console_log Using_saved_token w))
      else enter_if_missing e None w)"

section \<open>The driver\<close>

text \<open>
  The \<open>for\<close> loop of \<open>main\<close>. \<open>break\<close> ends it; \<open>continue\<close> and the end of the body go
  on with the rest of the identifiers; an error other than \<open>TOKEN_INVALID\<close> is caught and
  dropped. A value that is not an array has no \<open>forEach\<close>: the converter throws a
  \<open>TypeError\<close>, which is such an error.
\<close>

fun main_loop :: "env \<Rightarrow> string \<Rightarrow> string \<Rightarrow> string list \<Rightarrow> world \<Rightarrow> unit outcome" where
  "main_loop e fileType token [] w = Returns () w"
| "main_loop e fileType token (songId # songIds) w =
     (case fetchAlignedWords e songId token (console_log (Fetching songId) w) of
        Returns None w \<Rightarrow>
          main_loop e fileType token songIds (console_log (No_words_for songId) w)
      | Returns (Some (Word_array words)) w \<Rightarrow>
          (let content = (if fileType = ''srt'' then convertToSRT (time_zone e) words
                          else convertToLRC (time_zone e) words)
           in case saveFile e content fileType songId w of
                Returns _ w \<Rightarrow> main_loop e fileType token songIds w
              | Throws err w \<Rightarrow>
                  if err = TOKEN_INVALID
                  then Returns () (console_log Token_invalid_run_again w)
                  else main_loop e fileType token songIds w
              | Hangs w \<Rightarrow> Hangs w)
      | Returns (Some _) w \<Rightarrow> main_loop e fileType token songIds w
      | Throws err w \<Rightarrow>
          if err = TOKEN_INVALID
          then Returns () (console_log Token_invalid_run_again w)
          else main_loop e fileType token songIds w
      | Hangs w \<Rightarrow> Hangs w)"

text \<open>Lines 159 to 177: the loop and the message after it.\<close>

definition process_songs :: "env \<Rightarrow> string \<Rightarrow> string \<Rightarrow> string list \<Rightarrow> world \<Rightarrow> unit outcome" where
  "process_songs e fileType token songIds w =
     and_then (main_loop e fileType token songIds w)
       (\<lambda>_ w. Returns () (console_log All_done w))"

definition main :: "env \<Rightarrow> world \<Rightarrow> unit outcome" where
  "main e w =
     and_then (ask ''Enter song IDs (comma-separated): '' w)
       (\<lambda>songIdsInput w.
          let songIds = filter (\<lambda>s. s \<noteq> '''') (map trim (split_comma songIdsInput))
          in and_then (ask ''Enter file type (lrc or srt, default lrc): '' w)
               (\<lambda>fileType w.
                  let fileType = (if toLowerCase fileType = ''srt'' then ''srt'' else ''lrc'')
                  in and_then (loadToken e w)
                       (\<lambda>token w. process_songs e fileType token songIds w)))"

section \<open>Notions used to state the properties\<close>

text \<open>
  What a call did, without the world it left behind, and that world.
\<close>

definition result :: "'a outcome \<Rightarrow> (js_error + 'a) option" where
  "result m = (case m of Returns a w \<Rightarrow> Some (Inr a) | Throws err w \<Rightarrow> Some (Inl err) | Hangs w \<Rightarrow> None)"

definition world_of :: "'a outcome \<Rightarrow> world" where
  "world_of m = (case m of Returns a w \<Rightarrow> w | Throws err w \<Rightarrow> w | Hangs w \<Rightarrow> w)"

text \<open>
  A time zone whose offset from UTC is always the same whole number of seconds, and a
  zone with one change: 44 minutes and 30 seconds behind UTC until 7 January 1972, on
  UTC from then on (as Africa/Monrovia was).
\<close>

definition fixed_zone :: "int \<Rightarrow> zone" where
  "fixed_zone secs = \<lparr>tza_utc = (\<lambda>t. 1000 * secs), tza_local = (\<lambda>t. 1000 * secs)\<rparr>"

definition zone_with_change :: zone where
  "zone_with_change =
     \<lparr>tza_utc = (\<lambda>t. if t < 63593070000 then - 2670000 else 0),
      tza_local = (\<lambda>t. if t < 63590400000 then - 2670000 else 0)\<rparr>"

text \<open>
  The pieces that the converters are specified to emit: an SRT block is the index line,
  the line \<open>start --> end\<close>, the text, and a blank line; an LRC line is the time stamp,
  the text and a line feed. \<open>srt_blocks\<close> numbers the blocks from 1 in input order.
\<close>

definition spec_srt_block :: "zone \<Rightarrow> nat \<Rightarrow> aligned_word \<Rightarrow> string" where
  "spec_srt_block z k w =
     String_nat k @ ''\<newline>'' @
     formatSRTTime z (start_s w) @ '' --> '' @ formatSRTTime z (end_s w) @ ''\<newline>'' @
     word w @ ''\<newline>'' @
     ''\<newline>''"

definition spec_lrc_line :: "zone \<Rightarrow> aligned_word \<Rightarrow> string" where
  "spec_lrc_line z w = formatLRCTime z (start_s w) @ word w @ ''\<newline>''"

definition srt_blocks :: "zone \<Rightarrow> aligned_word list \<Rightarrow> string list" where
  "srt_blocks z ws = map (\<lambda>(k, w). spec_srt_block z k w) (zip [1..<Suc (length ws)] ws)"

text \<open>
  Reading a block back: its first line, and the number that a decimal numeral denotes.
\<close>

definition first_line :: "string \<Rightarrow> string" where
  "first_line s = takeWhile (\<lambda>c. c \<noteq> CHR 0x0A) s"

definition nat_of_decimal :: "string \<Rightarrow> nat" where
  "nat_of_decimal s = foldl (\<lambda>n c. 10 * n + (of_char c - 48)) 0 s"

text \<open>
  The shape \<open>[MM:SS.hh]\<close>: two decimal digits in each field.
\<close>

definition two_digits :: "nat \<Rightarrow> string" where
  "two_digits n = [digit (n div 10), digit (n mod 10)]"

definition is_digit :: "char \<Rightarrow> bool" where
  "is_digit c = (c \<in> set ''0123456789'')"

fun is_lrc_timestamp :: "string \<Rightarrow> bool" where
  "is_lrc_timestamp [a, m1, m2, b, s1, s2, c, h1, h2, d] =
     (a = CHR ''['' \<and> is_digit m1 \<and> is_digit m2 \<and> b = CHR '':'' \<and>
      is_digit s1 \<and> is_digit s2 \<and> c = CHR ''.'' \<and> is_digit h1 \<and> is_digit h2 \<and>
      d = CHR '']'')"
| "is_lrc_timestamp _ = False"

text \<open>
  The response that settles a request: the one at the end of the redirects, or a failure
  without a response when there are more redirects than the library follows.
\<close>

fun final_reply :: "nat \<Rightarrow> http_reply \<Rightarrow> http_reply" where
  "final_reply maxRedirects (Redirect r) =
     (case maxRedirects of 0 \<Rightarrow> NetworkFailure | Suc k \<Rightarrow> final_reply k r)"
| "final_reply maxRedirects r = r"

text \<open>
  The outcome of a fetch as a function of the response that settles it: no outcome when
  nothing comes back; the authentication failure on status 401; on a status from 200 to
  299 the field \<open>aligned_words\<close> of the body as it is when it is there and truthy, and
  \<open>null\<close> when it is missing or falsy; \<open>null\<close> in every other case.
\<close>

definition spec_fetch :: "nat \<Rightarrow> http_reply \<Rightarrow> (js_error + field_value option) option" where
  "spec_fetch maxRedirects r =
     (case final_reply maxRedirects r of
        NoAnswer \<Rightarrow> None
      | Response status d \<Rightarrow>
          if status = 401 then Some (Inl TOKEN_INVALID)
          else if 200 \<le> status \<and> status < 300
          then (case aligned_words d of
                  Some v \<Rightarrow> if truthy v then Some (Inr (Some v)) else Some (Inr None)
                | None \<Rightarrow> Some (Inr None))
          else Some (Inr None)
      | _ \<Rightarrow> Some (Inr None))"

text \<open>
  A run that stopped in a request that nothing came back for: the last request of the
  world it left.
\<close>

definition unanswered :: "env \<Rightarrow> world \<Rightarrow> bool" where
  "unanswered e w =
     (case rev (requests w) of
        [] \<Rightarrow> False
      | (songId, token) # earlier \<Rightarrow>
          spec_fetch (max_redirects e) (remote e (length earlier) songId token) = None)"

text \<open>
  Concrete inputs for the examples: a word, a world with given input lines and files, an
  environment where the reply depends on the song identifier only, the clock stands still,
  every write succeeds, the zone is UTC and five redirects are followed, and a remote
  that knows a few kinds of identifiers.
\<close>

definition example_word :: aligned_word where
  "example_word = \<lparr>word = ''hello'', start_s = Number (3 / 2), end_s = Number 2\<rparr>"

definition example_world :: "string list \<Rightarrow> (string \<times> string) list \<Rightarrow> world" where
  "example_world input files =
     \<lparr>stdin = input, console = [], disk = files, dirs = [], requests = [], ticks = 0\<rparr>"

definition example_env :: "(string \<Rightarrow> http_reply) \<Rightarrow> int \<Rightarrow> env" where
  "example_env reply now =
     \<lparr>remote = (\<lambda>k songId token. reply songId), clock = (\<lambda>k. now), write_fails = (\<lambda>p. False),
      time_zone = fixed_zone 0, max_redirects = 5\<rparr>"

definition example_remote :: "string \<Rightarrow> http_reply" where
  "example_remote songId =
     (if songId = ''expired'' then Response 401 Not_an_object
      else if songId = ''unknown'' then Response 404 Not_an_object
      else if songId = ''empty'' then Response 200 (Object None)
      else Response 200 (Object (Some (Word_array [example_word]))))"

text \<open>
  The same environment with a clock that advances by one millisecond at each reading.
\<close>

definition ticking_env :: "(string \<Rightarrow> http_reply) \<Rightarrow> int \<Rightarrow> env" where
  "ticking_env reply now =
     \<lparr>remote = (\<lambda>k songId token. reply songId), clock = (\<lambda>k. now + int k),
      write_fails = (\<lambda>p. False), time_zone = fixed_zone 0, max_redirects = 5\<rparr>"

section \<open>The converters build their output piece by piece\<close>

lemma forEach_indexed:
  "forEach (\<lambda>w i s. s @ g i w) ws i acc =
     acc @ concat (map (\<lambda>(k, w). g k w) (zip [i..<i + length ws] ws))"
proof (induction ws arbitrary: i acc)
  case Nil
  show ?case by simp
next
  case (Cons a ws)
  have "[i..<i + length (a # ws)] = i # [Suc i..<Suc i + length ws]"
    by (simp add: upt_conv_Cons del: upt_Suc)
  then show ?case
    using Cons.IH [of "Suc i" "acc @ g i a"] by simp
qed

lemma forEach_plain:
  "forEach (\<lambda>w i s. s @ g w) ws i acc = acc @ concat (map g ws)"
  by (induction ws arbitrary: i acc) simp_all

lemma convertToLRC_concat: "convertToLRC z ws = concat (map (spec_lrc_line z) ws)"
  unfolding convertToLRC_def using forEach_plain [of "spec_lrc_line z" ws 0 "''''"]
  by (simp add: spec_lrc_line_def [abs_def])

lemma map2_shift:
  "map (\<lambda>(k, w). f (Suc k) w) (zip [i..<j] ws) = map (\<lambda>(k, w). f k w) (zip [Suc i..<Suc j] ws)"
  by (simp add: map_Suc_upt [symmetric] zip_map1 case_prod_unfold o_def del: upt_Suc)

lemma convertToSRT_concat: "convertToSRT z ws = concat (srt_blocks z ws)"
proof -
  have "convertToSRT z ws =
          concat (map (\<lambda>(k, w). spec_srt_block z (Suc k) w) (zip [0..<0 + length ws] ws))"
    unfolding convertToSRT_def
    using forEach_indexed [of "\<lambda>k. spec_srt_block z (Suc k)" ws 0 "''''"]
    by (simp add: spec_srt_block_def [abs_def])
  then show ?thesis
    unfolding srt_blocks_def by (simp only: map2_shift add_0 One_nat_def)
qed

lemma length_srt_blocks: "length (srt_blocks z ws) = length ws"
  by (simp add: srt_blocks_def del: upt_Suc)

lemma take_srt_blocks: "i \<le> length ws \<Longrightarrow> take i (srt_blocks z ws) = srt_blocks z (take i ws)"
  by (simp add: srt_blocks_def take_map take_zip min_def del: upt_Suc)

lemma nth_srt_blocks: "i < length ws \<Longrightarrow> srt_blocks z ws ! i = spec_srt_block z (Suc i) (ws ! i)"
  by (simp add: srt_blocks_def del: upt_Suc)

lemma map_spec_lrc_line:
  "map (spec_lrc_line z) ws =
     map (\<lambda>(s, t). formatLRCTime z s @ t @ ''\<newline>'') (zip (map start_s ws) (map word ws))"
  by (induction ws) (simp_all add: spec_lrc_line_def)

subsection \<open>Decimal numerals\<close>

lemma digit_cases: "d < 10 \<Longrightarrow> d \<in> {0, 1, 2, 3, 4, 5, 6, 7, 8, 9::nat}"
  by auto

lemma of_char_digit: "d < 10 \<Longrightarrow> of_char (digit d) = 48 + d"
  using digit_cases [of d] by (auto simp: digit_def)

lemma digit_not_newline: "d < 10 \<Longrightarrow> digit d \<noteq> CHR 0x0A"
  using digit_cases [of d] by (auto simp: digit_def)

lemma is_digit_digit: "d < 10 \<Longrightarrow> is_digit (digit d)"
  using digit_cases [of d] by (auto simp: digit_def is_digit_def)

lemma nat_of_decimal_String_nat: "nat_of_decimal (String_nat n) = n"
proof (induction n rule: String_nat.induct)
  case (1 n)
  show ?case
  proof (cases "n < 10")
    case True
    then show ?thesis by (simp add: String_nat.simps [of n] nat_of_decimal_def of_char_digit)
  next
    case False
    have "nat_of_decimal (String_nat n) = 10 * nat_of_decimal (String_nat (n div 10)) + (of_char (digit (n mod 10)) - 48)"
      using False by (subst String_nat.simps) (simp add: nat_of_decimal_def)
    also have "\<dots> = 10 * (n div 10) + n mod 10"
      using 1 False by (simp add: of_char_digit)
    finally show ?thesis by simp
  qed
qed

lemma String_nat_no_newline: "CHR 0x0A \<notin> set (String_nat n)"
proof (induction n rule: String_nat.induct)
  case (1 n)
  show ?case
  proof (cases "n < 10")
    case True
    then show ?thesis using digit_not_newline [of n] by (simp add: String_nat.simps [of n])
  next
    case False
    then show ?thesis
      using 1 digit_not_newline [of "n mod 10"] by (simp add: String_nat.simps [of n])
  qed
qed

lemma padStart_two_digits:
  assumes "n < 100"
  shows "padStart 2 CHR ''0'' (String_nat n) = two_digits n"
proof (cases "n < 10")
  case True
  then show ?thesis
    by (simp add: String_nat.simps [of n] padStart_def two_digits_def digit_def)
next
  case False
  with assms have "n div 10 < 10" by simp
  then have "String_nat (n div 10) = [digit (n div 10)]"
    by (simp add: String_nat.simps [of "n div 10"])
  with False show ?thesis
    by (simp add: String_nat.simps [of n] padStart_def two_digits_def)
qed

subsection \<open>Blocks and time stamps\<close>

lemma first_line_block: "first_line (spec_srt_block z k w) = String_nat k"
  unfolding first_line_def spec_srt_block_def
  using String_nat_no_newline [of k] by (simp add: takeWhile_append)

lemma drop_to_suffix: "drop (length (xs @ ys) - length ys) (xs @ ys) = ys"
  by simp

lemma last_two_block: "drop (length (spec_srt_block z k w) - 2) (spec_srt_block z k w) = ''\<newline>\<newline>''"
proof -
  define body where "body = String_nat k @ ''\<newline>'' @
     formatSRTTime z (start_s w) @ '' --> '' @ formatSRTTime z (end_s w) @ ''\<newline>'' @ word w"
  have "spec_srt_block z k w = body @ ''\<newline>\<newline>''"
    by (simp add: spec_srt_block_def body_def)
  then show ?thesis
    using drop_to_suffix [of body "''\<newline>\<newline>''"] by simp
qed

lemma map_zip_fst: "length xs = length ys \<Longrightarrow> map (\<lambda>(k, w). h k) (zip xs ys) = map h xs"
  by (induction xs ys rule: list_induct2) simp_all

lemma map_zip_const: "length xs = length ys \<Longrightarrow> map (\<lambda>(k, w). c) (zip xs ys) = replicate (length ys) c"
  by (induction xs ys rule: list_induct2) simp_all

subsection \<open>Dates in local time\<close>

lemma time_within_day:
  "(t::int) = 86400000 * (t div 86400000) + 3600000 * (t div 3600000 mod 24) +
     60000 * (t div 60000 mod 60) + 1000 * (t div 1000 mod 60) + t mod 1000"
proof -
  have a: "t div 60000 = t div 1000 div 60" "t div 3600000 = t div 60000 div 60"
    "t div 86400000 = t div 3600000 div 24"
    by (simp_all add: zdiv_zmult2_eq [symmetric])
  have "t mod 1000 = t - 1000 * (t div 1000)"
    "t div 1000 mod 60 = t div 1000 - 60 * (t div 60000)"
    "t div 60000 mod 60 = t div 60000 - 60 * (t div 3600000)"
    "t div 3600000 mod 24 = t div 3600000 - 24 * (t div 86400000)"
    unfolding a by (simp_all add: minus_mult_div_eq_mod)
  then show ?thesis by simp
qed

text \<open>
  Putting a time back together from its day, hour, minute and second with new
  milliseconds replaces the milliseconds only.
\<close>

lemma MakeDate_parts:
  "MakeDate (Day t) (MakeTime (HourFromTime t) (MinFromTime t) (SecFromTime t) milli) =
     t - t mod 1000 + milli"
  unfolding MakeDate_def MakeTime_def Day_def HourFromTime_def MinFromTime_def SecFromTime_def
  using time_within_day [of t] by linarith

lemma setMilliseconds0_Number:
  "setMilliseconds0 z (Number q) =
     TimeClip (UTC z (tza_utc z 0 - tza_utc z 0 mod 1000 + truncate_rat q))"
  by (simp add: setMilliseconds0_def Let_def MakeDate_parts LocalTime_def)

lemma setMilliseconds0_not_finite:
  "setMilliseconds0 z NaN = None" "setMilliseconds0 z Infinity = None"
  "setMilliseconds0 z NegInfinity = None"
  by (simp_all add: setMilliseconds0_def)

lemma setMilliseconds0_same_offset:
  assumes "tza_utc z 0 mod 1000 = 0"
    and "tza_local z (tza_utc z 0 + truncate_rat q) = tza_utc z 0"
  shows "setMilliseconds0 z (Number q) = TimeClip (truncate_rat q)"
  using assms by (simp add: setMilliseconds0_Number UTC_def)

lemma setMilliseconds0_fixed_zone:
  "setMilliseconds0 (fixed_zone secs) (Number q) = TimeClip (truncate_rat q)"
  by (rule setMilliseconds0_same_offset) (simp_all add: fixed_zone_def)

lemma formatLRCTime_cong:
  "setMilliseconds0 z (js_times s (Number 1000)) = setMilliseconds0 z' (js_times s (Number 1000))
   \<Longrightarrow> formatLRCTime z s = formatLRCTime z' s"
  by (simp add: formatLRCTime_def)

lemma formatSRTTime_cong:
  "setMilliseconds0 z (js_times s (Number 1000)) = setMilliseconds0 z' (js_times s (Number 1000))
   \<Longrightarrow> formatSRTTime z s = formatSRTTime z' s"
  by (simp add: formatSRTTime_def)

lemma formatLRCTime_valid:
  assumes "setMilliseconds0 z (js_times s (Number 1000)) = Some t"
  shows "formatLRCTime z s =
           ''['' @ two_digits (nat (t div 60000 mod 60)) @ '':'' @
           two_digits (nat (t div 1000 mod 60)) @ ''.'' @
           two_digits (nat (t mod 1000) div 10) @ '']''"
proof -
  have m: "nat (t div 60000 mod 60) < 100" by simp
  have s: "nat (t div 1000 mod 60) < 100" by simp
  have "nat (t mod 1000) < 1000" by simp
  then have h: "nat (t mod 1000) div 10 < 100" by simp
  show ?thesis
    using assms
    by (simp add: formatLRCTime_def getUTCMinutes_def getUTCSeconds_def
        getUTCMilliseconds_def MinFromTime_def SecFromTime_def msFromTime_def String_field_def
        padStart_two_digits [OF m] padStart_two_digits [OF s] padStart_two_digits [OF h])
qed

lemma formatLRCTime_invalid:
  assumes "setMilliseconds0 z (js_times s (Number 1000)) = None"
  shows "formatLRCTime z s = ''[NaN:NaN.NaN]''"
  using assms
  by (simp add: formatLRCTime_def getUTCMinutes_def getUTCSeconds_def
      getUTCMilliseconds_def String_field_def padStart_def)

lemma is_lrc_timestamp_two_digits:
  assumes "a < 100" "b < 100" "c < 100"
  shows "is_lrc_timestamp (''['' @ two_digits a @ '':'' @ two_digits b @ ''.'' @ two_digits c @ '']'')"
  using assms by (simp add: two_digits_def is_digit_digit)

section \<open>Properties of the converters\<close>

lemma convertToLRC_single:
  "convertToLRC z [w] = formatLRCTime z (start_s w) @ word w @ ''\<newline>''"
  by (simp add: convertToLRC_def)

lemma convertToSRT_single:
  "convertToSRT z [w] =
     String_nat 1 @ ''\<newline>'' @
     formatSRTTime z (start_s w) @ '' --> '' @ formatSRTTime z (end_s w) @ ''\<newline>'' @
     word w @ ''\<newline>\<newline>''"
  by (simp add: convertToSRT_def)

lemma hello_times:
  "js_times (Number (3 / 2)) (Number 1000) = Number 1500"
  "js_times (Number 2) (Number 1000) = Number 2000"
  "truncate_rat 1500 = 1500" "truncate_rat 2000 = 2000"
  by code_simp+

lemma hello_utc:
  "convertToLRC (fixed_zone 0) [\<lparr>word = ''hello'', start_s = Number (3 / 2), end_s = Number 2\<rparr>] =
     ''[00:01.50]hello\<newline>''"
  "convertToSRT (fixed_zone 0) [\<lparr>word = ''hello'', start_s = Number (3 / 2), end_s = Number 2\<rparr>] =
     ''1\<newline>00:00:01,500 --> 00:00:02,000\<newline>hello\<newline>\<newline>''"
  by code_simp+

lemma hello_any_zone:
  assumes "tza_utc z 0 mod 1000 = 0"
    and "tza_local z (tza_utc z 0 + 1500) = tza_utc z 0"
    and "tza_local z (tza_utc z 0 + 2000) = tza_utc z 0"
  shows "convertToLRC z [\<lparr>word = ''hello'', start_s = Number (3 / 2), end_s = Number 2\<rparr>] =
           ''[00:01.50]hello\<newline>''"
    and "convertToSRT z [\<lparr>word = ''hello'', start_s = Number (3 / 2), end_s = Number 2\<rparr>] =
           ''1\<newline>00:00:01,500 --> 00:00:02,000\<newline>hello\<newline>\<newline>''"
proof -
  have "setMilliseconds0 z (Number 1500) = TimeClip (truncate_rat 1500)"
    by (rule setMilliseconds0_same_offset) (simp_all add: assms hello_times)
  then have a: "setMilliseconds0 z (js_times (Number (3 / 2)) (Number 1000)) =
           setMilliseconds0 (fixed_zone 0) (js_times (Number (3 / 2)) (Number 1000))"
    unfolding hello_times by (simp add: setMilliseconds0_fixed_zone hello_times)
  have "setMilliseconds0 z (Number 2000) = TimeClip (truncate_rat 2000)"
    by (rule setMilliseconds0_same_offset) (simp_all add: assms hello_times)
  then have b: "setMilliseconds0 z (js_times (Number 2) (Number 1000)) =
           setMilliseconds0 (fixed_zone 0) (js_times (Number 2) (Number 1000))"
    unfolding hello_times by (simp add: setMilliseconds0_fixed_zone hello_times)
  have l: "formatLRCTime z (Number (3 / 2)) = formatLRCTime (fixed_zone 0) (Number (3 / 2))"
    using a by (rule formatLRCTime_cong)
  have s1: "formatSRTTime z (Number (3 / 2)) = formatSRTTime (fixed_zone 0) (Number (3 / 2))"
    using a by (rule formatSRTTime_cong)
  have s2: "formatSRTTime z (Number 2) = formatSRTTime (fixed_zone 0) (Number 2)"
    using b by (rule formatSRTTime_cong)
  show "convertToLRC z [\<lparr>word = ''hello'', start_s = Number (3 / 2), end_s = Number 2\<rparr>] =
           ''[00:01.50]hello\<newline>''"
    using hello_utc(1) by (simp only: convertToLRC_single l aligned_word.simps)
  show "convertToSRT z [\<lparr>word = ''hello'', start_s = Number (3 / 2), end_s = Number 2\<rparr>] =
           ''1\<newline>00:00:01,500 --> 00:00:02,000\<newline>hello\<newline>\<newline>''"
    using hello_utc(2) by (simp only: convertToSRT_single s1 s2 aligned_word.simps)
qed

text \<open>
  C2. For the single word \<open>hello\<close> from 1.5 s to 2.0 s the LRC converter returns
  \<open>[00:01.50]hello\<close> and a line feed, and the SRT converter returns the block
  \<open>1\<close>, \<open>00:00:01,500 --> 00:00:02,000\<close>, \<open>hello\<close> and a blank line: in every time
  zone with a fixed offset, and more generally in every zone whose offset, a whole number
  of seconds, is the same at the epoch and during the two seconds after it.
\<close>

theorem hello_example:
  "convertToLRC (fixed_zone secs)
     [\<lparr>word = ''hello'', start_s = Number (3 / 2), end_s = Number 2\<rparr>] =
     ''[00:01.50]hello\<newline>'' \<and>
   convertToSRT (fixed_zone secs)
     [\<lparr>word = ''hello'', start_s = Number (3 / 2), end_s = Number 2\<rparr>] =
     ''1\<newline>00:00:01,500 --> 00:00:02,000\<newline>hello\<newline>\<newline>'' \<and>
   (tza_utc z 0 mod 1000 = 0 \<and>
    tza_local z (tza_utc z 0 + 1500) = tza_utc z 0 \<and>
    tza_local z (tza_utc z 0 + 2000) = tza_utc z 0 \<longrightarrow>
    convertToLRC z [\<lparr>word = ''hello'', start_s = Number (3 / 2), end_s = Number 2\<rparr>] =
      ''[00:01.50]hello\<newline>'' \<and>
    convertToSRT z [\<lparr>word = ''hello'', start_s = Number (3 / 2), end_s = Number 2\<rparr>] =
      ''1\<newline>00:00:01,500 --> 00:00:02,000\<newline>hello\<newline>\<newline>'')"
proof (intro conjI impI)
  have f: "tza_utc (fixed_zone secs) 0 mod 1000 = 0"
    "tza_local (fixed_zone secs) (tza_utc (fixed_zone secs) 0 + 1500) = tza_utc (fixed_zone secs) 0"
    "tza_local (fixed_zone secs) (tza_utc (fixed_zone secs) 0 + 2000) = tza_utc (fixed_zone secs) 0"
    by (simp_all add: fixed_zone_def)
  show "convertToLRC (fixed_zone secs)
     [\<lparr>word = ''hello'', start_s = Number (3 / 2), end_s = Number 2\<rparr>] =
     ''[00:01.50]hello\<newline>''"
    using f by (rule hello_any_zone(1))
  show "convertToSRT (fixed_zone secs)
     [\<lparr>word = ''hello'', start_s = Number (3 / 2), end_s = Number 2\<rparr>] =
     ''1\<newline>00:00:01,500 --> 00:00:02,000\<newline>hello\<newline>\<newline>''"
    using f by (rule hello_any_zone(2))
next
  assume a: "tza_utc z 0 mod 1000 = 0 \<and>
    tza_local z (tza_utc z 0 + 1500) = tza_utc z 0 \<and>
    tza_local z (tza_utc z 0 + 2000) = tza_utc z 0"
  then show "convertToLRC z [\<lparr>word = ''hello'', start_s = Number (3 / 2), end_s = Number 2\<rparr>] =
      ''[00:01.50]hello\<newline>''"
    by (intro hello_any_zone(1)) simp_all
  from a show "convertToSRT z [\<lparr>word = ''hello'', start_s = Number (3 / 2), end_s = Number 2\<rparr>] =
      ''1\<newline>00:00:01,500 --> 00:00:02,000\<newline>hello\<newline>\<newline>''"
    by (intro hello_any_zone(2)) simp_all
qed

theorem hello_example_witness:
  "tza_utc zone_with_change 0 mod 1000 = 0 \<and>
   tza_local zone_with_change (tza_utc zone_with_change 0 + 1500) = tza_utc zone_with_change 0 \<and>
   tza_local zone_with_change (tza_utc zone_with_change 0 + 2000) = tza_utc zone_with_change 0 \<and>
   convertToLRC zone_with_change
     [\<lparr>word = ''hello'', start_s = Number (3 / 2), end_s = Number 2\<rparr>] =
     ''[00:01.50]hello\<newline>'' \<and>
   convertToSRT zone_with_change
     [\<lparr>word = ''hello'', start_s = Number (3 / 2), end_s = Number 2\<rparr>] =
     ''1\<newline>00:00:01,500 --> 00:00:02,000\<newline>hello\<newline>\<newline>''"
  using hello_example [of 0 zone_with_change]
  by (simp add: zone_with_change_def)

text \<open>
  C3. For every sequence of words the SRT output is the concatenation of exactly one block
  per word; read back, the index lines of the blocks are 1, 2, 3, ... in input order; each
  block ends with its blank line; and the empty sequence gives the empty string.
\<close>

theorem srt_one_numbered_block_per_word:
  "convertToSRT z ws = concat (srt_blocks z ws) \<and>
   length (srt_blocks z ws) = length ws \<and>
   map (\<lambda>b. nat_of_decimal (first_line b)) (srt_blocks z ws) = [1..<Suc (length ws)] \<and>
   map (\<lambda>b. drop (length b - 2) b) (srt_blocks z ws) = replicate (length ws) ''\<newline>\<newline>'' \<and>
   convertToSRT z [] = ''''"
proof -
  have len: "length [1..<Suc (length ws)] = length ws" by (simp del: upt_Suc)
  have a: "map (\<lambda>b. nat_of_decimal (first_line b)) (srt_blocks z ws) = [1..<Suc (length ws)]"
    unfolding srt_blocks_def
    using map_zip_fst [OF len, of "\<lambda>k. k"]
    by (simp add: o_def case_prod_unfold first_line_block nat_of_decimal_String_nat del: upt_Suc)
  have b: "map (\<lambda>b. drop (length b - 2) b) (srt_blocks z ws) = replicate (length ws) ''\<newline>\<newline>''"
    unfolding srt_blocks_def
    using map_zip_const [OF len, of "''\<newline>\<newline>''"]
    by (simp add: o_def case_prod_unfold last_two_block del: upt_Suc)
  have c: "convertToSRT z [] = ''''" by (simp add: convertToSRT_def)
  show ?thesis using convertToSRT_concat length_srt_blocks a b c by blast
qed

text \<open>
  The claim C4 as it is written fails for a start time whose date is invalid: in a
  process on UTC, for a start of \<open>1e13\<close> seconds the time value is beyond the range of
  dates and every field of the time stamp reads \<open>NaN\<close>.
\<close>

theorem lrc_invalid_start_counterexample:
  "convertToLRC (fixed_zone 0)
     [\<lparr>word = ''x'', start_s = Number 10000000000000, end_s = Number 0\<rparr>] =
     ''[NaN:NaN.NaN]x\<newline>'' \<and>
   \<not> is_lrc_timestamp
       (take 10 (convertToLRC (fixed_zone 0)
          [\<lparr>word = ''x'', start_s = Number 10000000000000, end_s = Number 0\<rparr>]))"
  by code_simp

text \<open>
  The date is built in local time. In the zone with one change a start of 70000000 s
  falls after the change, and the stamp shows the 44 minutes and 30 seconds by which the
  local epoch differs: \<open>[42:10.00]\<close>, where UTC gives \<open>[26:40.00]\<close>.
\<close>

lemma lrc_stamp_in_changing_zone:
  "formatLRCTime zone_with_change (Number 70000000) = ''[42:10.00]''"
  "formatLRCTime (fixed_zone 0) (Number 70000000) = ''[26:40.00]''"
  by code_simp+

text \<open>
  C4, amended. For every sequence of words the LRC output is the concatenation, in input
  order, of exactly one line per word: the time stamp of the start time, the text and a
  line feed; the empty sequence gives the empty string. The time stamp is read from the
  date that \<open>setMilliseconds\<close> makes of the start time in milliseconds: the date of the
  local time that lies that many milliseconds, truncated, after the whole second of the
  local epoch. When that date is valid, with time value \<open>t\<close>, the time stamp is
  \<open>[MM:SS.hh]\<close> with two decimal digits for the minutes, the seconds and the
  milliseconds of \<open>t\<close> divided by 10; when it is not, the time stamp is \<open>[NaN:NaN.NaN]\<close>.
  In a zone with a fixed offset \<open>t\<close> is the start time in milliseconds, truncated, and the
  date is valid when \<open>t\<close> is at most \<open>8.64e15\<close> in magnitude.
\<close>

theorem lrc_one_line_per_word:
  "convertToLRC z ws =
     concat (map (\<lambda>w. formatLRCTime z (start_s w) @ word w @ ''\<newline>'') ws) \<and>
   convertToLRC z [] = '''' \<and>
   (case setMilliseconds0 z (js_times s (Number 1000)) of
      Some t \<Rightarrow>
        formatLRCTime z s =
          ''['' @ two_digits (nat (t div 60000 mod 60)) @ '':'' @
          two_digits (nat (t div 1000 mod 60)) @ ''.'' @
          two_digits (nat (t mod 1000) div 10) @ '']'' \<and>
        is_lrc_timestamp (formatLRCTime z s)
    | None \<Rightarrow> formatLRCTime z s = ''[NaN:NaN.NaN]'') \<and>
   setMilliseconds0 z (Number q) =
     TimeClip (UTC z (tza_utc z 0 - tza_utc z 0 mod 1000 + truncate_rat q)) \<and>
   setMilliseconds0 z NaN = None \<and>
   setMilliseconds0 z Infinity = None \<and>
   setMilliseconds0 z NegInfinity = None \<and>
   setMilliseconds0 (fixed_zone secs) (Number q) =
     (if \<bar>truncate_rat q\<bar> \<le> 8640000000000000 then Some (truncate_rat q) else None)"
proof -
  have a: "convertToLRC z ws =
     concat (map (\<lambda>w. formatLRCTime z (start_s w) @ word w @ ''\<newline>'') ws)"
    using convertToLRC_concat [of z ws] by (simp add: spec_lrc_line_def [abs_def])
  have b: "convertToLRC z [] = ''''" by (simp add: convertToLRC_def)
  have c: "(case setMilliseconds0 z (js_times s (Number 1000)) of
      Some t \<Rightarrow>
        formatLRCTime z s =
          ''['' @ two_digits (nat (t div 60000 mod 60)) @ '':'' @
          two_digits (nat (t div 1000 mod 60)) @ ''.'' @
          two_digits (nat (t mod 1000) div 10) @ '']'' \<and>
        is_lrc_timestamp (formatLRCTime z s)
    | None \<Rightarrow> formatLRCTime z s = ''[NaN:NaN.NaN]'')"
  proof (cases "setMilliseconds0 z (js_times s (Number 1000))")
    case None
    then show ?thesis using formatLRCTime_invalid [OF None] by simp
  next
    case (Some t)
    have "nat (t mod 1000) < 1000" by simp
    then have h: "nat (t mod 1000) div 10 < 100" by simp
    have "is_lrc_timestamp (formatLRCTime z s)"
      unfolding formatLRCTime_valid [OF Some]
      by (rule is_lrc_timestamp_two_digits) (simp_all add: h)
    then show ?thesis using Some formatLRCTime_valid [OF Some] by simp
  qed
  have d: "setMilliseconds0 (fixed_zone secs) (Number q) =
     (if \<bar>truncate_rat q\<bar> \<le> 8640000000000000 then Some (truncate_rat q) else None)"
    by (simp add: setMilliseconds0_fixed_zone TimeClip_def)
  show ?thesis
    using a b c d setMilliseconds0_Number [of z q] setMilliseconds0_not_finite [of z]
    by blast
qed

text \<open>
  C5. Both converters keep the input order and every word: for each position \<open>i\<close> the
  output is the output for the first \<open>i\<close> words, then the piece made from the \<open>i\<close>-th
  word (numbered \<open>i + 1\<close> in SRT), then the pieces of the words after it.
\<close>

theorem converters_keep_order:
  assumes "i < length ws"
  shows "convertToLRC z ws =
           convertToLRC z (take i ws) @ spec_lrc_line z (ws ! i) @ convertToLRC z (drop (Suc i) ws) \<and>
         convertToSRT z ws =
           convertToSRT z (take i ws) @ spec_srt_block z (Suc i) (ws ! i) @
           concat (drop (Suc i) (srt_blocks z ws)) \<and>
         length (srt_blocks z ws) = length ws"
proof -
  have ws: "ws = take i ws @ ws ! i # drop (Suc i) ws"
    using assms by (simp add: id_take_nth_drop)
  have "convertToLRC z ws = convertToLRC z (take i ws @ ws ! i # drop (Suc i) ws)"
    using ws by simp
  then have l: "convertToLRC z ws =
           convertToLRC z (take i ws) @ spec_lrc_line z (ws ! i) @ convertToLRC z (drop (Suc i) ws)"
    by (simp only: convertToLRC_concat map_append concat_append list.map concat.simps)
  have i: "i < length (srt_blocks z ws)" using assms by (simp add: length_srt_blocks)
  have "srt_blocks z ws = take i (srt_blocks z ws) @ srt_blocks z ws ! i # drop (Suc i) (srt_blocks z ws)"
    using i by (simp add: id_take_nth_drop)
  then have "concat (srt_blocks z ws) =
      concat (take i (srt_blocks z ws)) @ srt_blocks z ws ! i @ concat (drop (Suc i) (srt_blocks z ws))"
    by (metis concat.simps(2) concat_append)
  then have s: "convertToSRT z ws =
           convertToSRT z (take i ws) @ spec_srt_block z (Suc i) (ws ! i) @
           concat (drop (Suc i) (srt_blocks z ws))"
    using assms by (simp add: convertToSRT_concat take_srt_blocks nth_srt_blocks)
  show ?thesis using l s length_srt_blocks by blast
qed

theorem converters_keep_order_witness:
  "(1::nat) < length [example_word, example_word\<lparr>word := ''again''\<rparr>] \<and>
   convertToLRC zone_with_change [example_word, example_word\<lparr>word := ''again''\<rparr>] =
     convertToLRC zone_with_change [example_word] @
     spec_lrc_line zone_with_change (example_word\<lparr>word := ''again''\<rparr>) @
     convertToLRC zone_with_change [] \<and>
   convertToSRT zone_with_change [example_word, example_word\<lparr>word := ''again''\<rparr>] =
     convertToSRT zone_with_change [example_word] @
     spec_srt_block zone_with_change 2 (example_word\<lparr>word := ''again''\<rparr>) @
     concat (drop 2 (srt_blocks zone_with_change
       [example_word, example_word\<lparr>word := ''again''\<rparr>]))"
  using converters_keep_order
    [of 1 "[example_word, example_word\<lparr>word := ''again''\<rparr>]" zone_with_change]
  by (simp add: numeral_2_eq_2)

text \<open>
  C9. The LRC output does not depend on the end times: two sequences with the same texts
  and the same start times, position by position, give the same output.
\<close>

theorem lrc_ignores_end_s:
  assumes "map word xs = map word ys" and "map start_s xs = map start_s ys"
  shows "convertToLRC z xs = convertToLRC z ys"
  using assms by (simp add: convertToLRC_concat map_spec_lrc_line)

theorem lrc_ignores_end_s_witness:
  "convertToLRC zone_with_change
     [\<lparr>word = ''hello'', start_s = Number (3 / 2), end_s = Number 2\<rparr>,
      \<lparr>word = ''you'', start_s = Number 2, end_s = Number 3\<rparr>] =
   convertToLRC zone_with_change
     [\<lparr>word = ''hello'', start_s = Number (3 / 2), end_s = Number 7\<rparr>,
      \<lparr>word = ''you'', start_s = Number 2, end_s = NaN\<rparr>]"
  using lrc_ignores_end_s
    [of "[\<lparr>word = ''hello'', start_s = Number (3 / 2), end_s = Number 2\<rparr>,
          \<lparr>word = ''you'', start_s = Number 2, end_s = Number 3\<rparr>]"
        "[\<lparr>word = ''hello'', start_s = Number (3 / 2), end_s = Number 7\<rparr>,
          \<lparr>word = ''you'', start_s = Number 2, end_s = NaN\<rparr>]" zone_with_change]
  by simp

text \<open>
  C10. The LRC converter distributes over concatenation of its input.
\<close>

theorem lrc_append: "convertToLRC z (xs @ ys) = convertToLRC z xs @ convertToLRC z ys"
  by (simp add: convertToLRC_concat)

section \<open>Fetching\<close>

lemma axios_get_final_reply:
  "axios_get m r =
     (case final_reply m r of
        NoAnswer \<Rightarrow> Pending
      | NetworkFailure \<Rightarrow> Rejected None
      | Response status d \<Rightarrow>
          if 200 \<le> status \<and> status < 300 then Resolved d else Rejected (Some status)
      | Redirect r' \<Rightarrow> Rejected None)"
  by (induction m r rule: axios_get.induct) (simp_all split: nat.splits)

lemma fetch_result:
  "result (fetchAlignedWords e songId token w) =
     spec_fetch (max_redirects e) (remote e (length (requests w)) songId token)"
  by (simp add: fetchAlignedWords_def axios_get_final_reply spec_fetch_def result_def Let_def
      split: http_reply.splits option.splits)

lemma fetch_world:
  "world_of (fetchAlignedWords e songId token w) = w\<lparr>requests := requests w @ [(songId, token)]\<rparr> \<or>
   world_of (fetchAlignedWords e songId token w) =
     console_log (Error_fetching songId) (w\<lparr>requests := requests w @ [(songId, token)]\<rparr>)"
  by (simp add: fetchAlignedWords_def world_of_def Let_def
      split: axios_outcome.splits option.splits)

lemma fetch_requests:
  "requests (world_of (fetchAlignedWords e songId token w)) = requests w @ [(songId, token)]"
  using fetch_world [of e songId token w] by (auto simp: console_log_def)

lemma fetch_cases:
  obtains (words) v w' where "fetchAlignedWords e songId token w = Returns (Some v) w'"
  | (null) w' where "fetchAlignedWords e songId token w = Returns None w'"
  | (auth) w' where "fetchAlignedWords e songId token w = Throws TOKEN_INVALID w'"
  | (hang) "fetchAlignedWords e songId token w =
              Hangs (w\<lparr>requests := requests w @ [(songId, token)]\<rparr>)"
proof (cases "axios_get (max_redirects e) (remote e (length (requests w)) songId token)")
  case (Resolved d)
  show ?thesis
  proof (cases "aligned_words d")
    case None
    with Resolved show ?thesis by (intro null) (simp add: fetchAlignedWords_def)
  next
    case (Some v)
    show ?thesis
    proof (cases "truthy v")
      case True
      with Resolved Some show ?thesis by (intro words) (simp add: fetchAlignedWords_def)
    next
      case False
      with Resolved Some show ?thesis by (intro null) (simp add: fetchAlignedWords_def)
    qed
  qed
next
  case (Rejected response)
  show ?thesis
  proof (cases "response = Some 401")
    case True
    with Rejected show ?thesis by (intro auth) (simp add: fetchAlignedWords_def)
  next
    case False
    with Rejected show ?thesis by (intro null) (simp add: fetchAlignedWords_def)
  qed
next
  case Pending
  then show ?thesis by (intro hang) (simp add: fetchAlignedWords_def)
qed

lemma fetch_throws:
  assumes "fetchAlignedWords e songId token w = Throws err w'"
  shows "err = TOKEN_INVALID \<and> w' = w\<lparr>requests := requests w @ [(songId, token)]\<rparr>"
  using assms
  by (simp add: fetchAlignedWords_def Let_def split: axios_outcome.splits option.splits if_splits)

lemma fetch_401:
  assumes "spec_fetch (max_redirects e) (remote e (length (requests w)) songId token) =
             Some (Inl TOKEN_INVALID)"
  shows "fetchAlignedWords e songId token w =
           Throws TOKEN_INVALID (w\<lparr>requests := requests w @ [(songId, token)]\<rparr>)"
proof (cases rule: fetch_cases [of e songId token w])
  case (words v w')
  then show ?thesis
    using assms fetch_result [of e songId token w] by (simp add: result_def)
next
  case (null w')
  then show ?thesis
    using assms fetch_result [of e songId token w] by (simp add: result_def)
next
  case (auth w')
  then show ?thesis using fetch_throws [of e songId token w TOKEN_INVALID w'] by simp
next
  case hang
  then show ?thesis
    using assms fetch_result [of e songId token w] by (simp add: result_def)
qed

lemma fetch_null:
  assumes "spec_fetch (max_redirects e) (remote e (length (requests w)) songId token) =
             Some (Inr None)"
  obtains w' where "fetchAlignedWords e songId token w = Returns None w'"
proof (cases rule: fetch_cases [of e songId token w])
  case (words v w')
  then show ?thesis
    using assms fetch_result [of e songId token w] by (simp add: result_def)
next
  case (null w')
  then show ?thesis by (rule that)
next
  case (auth w')
  then show ?thesis
    using assms fetch_result [of e songId token w] by (simp add: result_def)
next
  case hang
  then show ?thesis
    using assms fetch_result [of e songId token w] by (simp add: result_def)
qed

lemma fetch_hangs:
  assumes "fetchAlignedWords e songId token w = Hangs w'"
  shows "unanswered e w'"
proof -
  have r: "spec_fetch (max_redirects e) (remote e (length (requests w)) songId token) = None"
    using assms fetch_result [of e songId token w] by (simp add: result_def)
  have "requests w' = requests w @ [(songId, token)]"
    using assms fetch_requests [of e songId token w] by (simp add: world_of_def)
  then show ?thesis using r by (simp add: unanswered_def)
qed

text \<open>
  The claim C1 as it is written fails for a status other than 200 that the client library
  still counts as a success: on a 201 reply that carries \<open>aligned_words\<close> the fetch
  returns the array, not \<open>null\<close>.
\<close>

theorem fetch_201_counterexample:
  "result (fetchAlignedWords
             (example_env (\<lambda>songId. Response 201 (Object (Some (Word_array [example_word])))) 0)
             ''song'' ''token'' (example_world [] [])) =
     Some (Inr (Some (Word_array [example_word]))) \<and>
   result (fetchAlignedWords
             (example_env (\<lambda>songId. Response 201 (Object (Some (Word_array [example_word])))) 0)
             ''song'' ''token'' (example_world [] [])) \<noteq> Some (Inr None)"
  by (simp add: fetchAlignedWords_def aligned_words_def result_def example_env_def
      example_world_def)

text \<open>
  So does it for a redirect that the library follows to a reply with the array, and a
  request that nothing comes back for has no outcome at all.
\<close>

lemma fetch_redirect_followed:
  "result (fetchAlignedWords
             (example_env (\<lambda>songId.
                Redirect (Response 200 (Object (Some (Word_array [example_word]))))) 0)
             ''song'' ''token'' (example_world [] [])) =
     Some (Inr (Some (Word_array [example_word])))"
  by (simp add: fetchAlignedWords_def aligned_words_def result_def example_env_def
      example_world_def eval_nat_numeral)

lemma fetch_truthy_value_as_is:
  "result (fetchAlignedWords
             (example_env (\<lambda>songId. Response 200 (Object (Some (JString ''oops'')))) 0)
             ''song'' ''token'' (example_world [] [])) =
     Some (Inr (Some (JString ''oops'')))"
  by (simp add: fetchAlignedWords_def aligned_words_def result_def example_env_def
      example_world_def)

text \<open>
  C1, amended. The outcome of a fetch is determined by the response that settles the
  request, which is the response at the end of the redirects that the client library
  follows. If its status is 401 the fetch throws \<open>TOKEN_INVALID\<close>. If its status is from
  200 to 299 and the body has a truthy field \<open>aligned_words\<close>, as every array is, the
  fetch returns that value as it is; if the body has no such field, or a falsy one, or is
  not an object, it returns \<open>null\<close>. On any other status, on a failure of the network and
  on too many redirects it returns \<open>null\<close>.
\<close>

theorem fetch_outcome:
  "result (fetchAlignedWords e songId token w) =
     spec_fetch (max_redirects e) (remote e (length (requests w)) songId token)"
  by (rule fetch_result)

section \<open>Saving\<close>

subsection \<open>The year of a day, as the language specification defines it\<close>

text \<open>
  \<open>YearFromDay\<close> is the year of the language specification: the year whose first day is
  the last one not after the given day.
\<close>

lemma div_lower: "0 < c \<Longrightarrow> c * (x div c) \<le> (x::int)"
  using pos_mod_sign [of c x] mult_div_mod_eq [of c x] by linarith

lemma div_upper: "0 < c \<Longrightarrow> (x::int) < c * (x div c) + c"
  using pos_mod_bound [of c x] mult_div_mod_eq [of c x] by linarith

lemma DayFromYear_bounds:
  "146097 * y - 287811700 \<le> 400 * DayFromYear y"
  "400 * DayFromYear y \<le> 146097 * y - 287810490"
proof -
  define a where "a = (y - 1969) div 4"
  define b where "b = (y - 1901) div 100"
  define c where "c = (y - 1601) div 400"
  have a: "4 * a \<le> y - 1969" "y - 1969 < 4 * a + 4"
    unfolding a_def using div_lower [of 4 "y - 1969"] div_upper [of 4 "y - 1969"] by simp_all
  have b: "100 * b \<le> y - 1901" "y - 1901 < 100 * b + 100"
    unfolding b_def using div_lower [of 100 "y - 1901"] div_upper [of 100 "y - 1901"] by simp_all
  have c: "400 * c \<le> y - 1601" "y - 1601 < 400 * c + 400"
    unfolding c_def using div_lower [of 400 "y - 1601"] div_upper [of 400 "y - 1601"] by simp_all
  have d: "DayFromYear y = 365 * y - 719050 + a - b + c"
    by (simp add: DayFromYear_def a_def b_def c_def)
  have a': "100 * y - 197300 \<le> 400 * a" "400 * a \<le> 100 * y - 196900"
    using a by linarith+
  have b': "4 * y - 8004 \<le> 400 * b" "400 * b \<le> 4 * y - 7604"
    using b by linarith+
  have c': "y - 2001 \<le> 400 * c" "400 * c \<le> y - 1601"
    using c by linarith+
  have e: "400 * (365 * y - 719050 + a - b + c) =
      146000 * y - 287620000 + 400 * a - 400 * b + 400 * c"
    by (simp add: algebra_simps)
  show "146097 * y - 287811700 \<le> 400 * DayFromYear y"
    unfolding d e using a'(1) b'(2) c'(1) by linarith
  show "400 * DayFromYear y \<le> 146097 * y - 287810490"
    unfolding d e using a'(2) b'(1) c'(2) by linarith
qed

lemma YearFromDay_lower: "DayFromYear (YearFromDay day) \<le> day"
proof -
  define k where "k = (400 * day) div 146097"
  define D where "D = DayFromYear (1970 + k - 1)"
  have k: "146097 * k \<le> 400 * day"
    unfolding k_def using div_lower [of 146097 "400 * day"] by simp
  have "400 * D \<le> 146097 * k - 145497"
    unfolding D_def using DayFromYear_bounds(2) [of "1970 + k - 1"] by simp
  with k have "D \<le> day" by linarith
  then show ?thesis
    unfolding YearFromDay_def Let_def k_def [symmetric] D_def by auto
qed

lemma YearFromDay_upper: "day < DayFromYear (YearFromDay day + 1)"
proof -
  define k where "k = (400 * day) div 146097"
  define D where "D = DayFromYear (1970 + k + 1 + 1)"
  have k: "400 * day < 146097 * k + 146097"
    unfolding k_def using div_upper [of 146097 "400 * day"] by simp
  have "146097 * k + 291584 \<le> 400 * D"
    unfolding D_def using DayFromYear_bounds(1) [of "1970 + k + 1 + 1"] by simp
  with k have "day < D" by linarith
  then show ?thesis
    unfolding YearFromDay_def Let_def k_def [symmetric] D_def by auto
qed

lemma InLeapYear_cases: "InLeapYear y = 0 \<or> InLeapYear y = 1"
  by (simp add: InLeapYear_def)

lemma month_and_date_inj:
  "month_and_date d1 leap = month_and_date d2 leap \<Longrightarrow> d1 = d2"
  by (simp add: month_and_date_def split: if_splits)

lemma month_and_date_positive:
  "0 \<le> d \<Longrightarrow> 0 \<le> leap \<Longrightarrow> 1 \<le> snd (month_and_date d leap)"
  by (simp add: month_and_date_def)

lemma day_determined:
  assumes y: "YearFromDay day1 = YearFromDay day2"
    and m: "fst (month_and_date (day1 - DayFromYear (YearFromDay day1)) (InLeapYear (YearFromDay day1))) =
            fst (month_and_date (day2 - DayFromYear (YearFromDay day2)) (InLeapYear (YearFromDay day2)))"
    and d: "nat (snd (month_and_date (day1 - DayFromYear (YearFromDay day1)) (InLeapYear (YearFromDay day1)))) =
            nat (snd (month_and_date (day2 - DayFromYear (YearFromDay day2)) (InLeapYear (YearFromDay day2))))"
  shows "day1 = day2"
proof -
  let ?y = "YearFromDay day1"
  let ?l = "InLeapYear ?y"
  have l: "0 \<le> ?l" using InLeapYear_cases [of ?y] by auto
  have p1: "1 \<le> snd (month_and_date (day1 - DayFromYear ?y) ?l)"
    using YearFromDay_lower [of day1] l by (intro month_and_date_positive) simp_all
  have p2: "1 \<le> snd (month_and_date (day2 - DayFromYear ?y) ?l)"
    using YearFromDay_lower [of day2] l y by (intro month_and_date_positive) simp_all
  have "snd (month_and_date (day1 - DayFromYear ?y) ?l) = snd (month_and_date (day2 - DayFromYear ?y) ?l)"
    using d p1 p2 y by simp
  with m y have "month_and_date (day1 - DayFromYear ?y) ?l = month_and_date (day2 - DayFromYear ?y) ?l"
    by (simp add: prod_eq_iff)
  then have "day1 - DayFromYear ?y = day2 - DayFromYear ?y"
    by (rule month_and_date_inj)
  then show ?thesis by simp
qed

lemma time_determined:
  assumes "t1 div 86400000 = t2 div 86400000"
    and "t1 div 3600000 mod 24 = t2 div 3600000 mod 24"
    and "t1 div 60000 mod 60 = t2 div 60000 mod 60"
    and "t1 div 1000 mod 60 = t2 div 1000 mod 60"
    and "t1 mod 1000 = t2 mod (1000::int)"
  shows "t1 = t2"
  using time_within_day [of t1] time_within_day [of t2] assms by simp

subsection \<open>The time stamp determines the clock reading\<close>

lemma String_nat_digits: "list_all is_digit (String_nat n)"
proof (induction n rule: String_nat.induct)
  case (1 n)
  show ?case
  proof (cases "n < 10")
    case True
    then show ?thesis by (simp add: String_nat.simps [of n] is_digit_digit)
  next
    case False
    then show ?thesis using 1 by (simp add: String_nat.simps [of n] is_digit_digit)
  qed
qed

lemma String_nat_not_Nil: "String_nat n \<noteq> []"
  by (simp add: String_nat.simps [of n])

lemma zeros_digits: "list_all is_digit (replicate k CHR ''0'')"
  by (induction k) (simp_all add: is_digit_def)

lemma pad_nat_digits: "list_all is_digit (pad_nat w n)"
  by (simp add: pad_nat_def padStart_def String_nat_digits zeros_digits)

lemma pad_nat_not_Nil: "pad_nat w n \<noteq> []"
  by (simp add: pad_nat_def padStart_def String_nat_not_Nil)

lemma nat_of_decimal_zeros:
  "foldl (\<lambda>n c. 10 * n + (of_char c - 48)) (0::nat) (replicate k CHR ''0'') = 0"
  by (induction k) simp_all

lemma nat_of_decimal_pad_nat: "nat_of_decimal (pad_nat w n) = n"
  using nat_of_decimal_String_nat [of n]
  by (simp add: pad_nat_def padStart_def nat_of_decimal_def nat_of_decimal_zeros)

lemma pad_nat_inj: "pad_nat w n = pad_nat w' n' \<Longrightarrow> n = n'"
  using nat_of_decimal_pad_nat by metis

lemma digits_then_other:
  assumes "list_all is_digit xs" "list_all is_digit ys" "\<not> is_digit c" "\<not> is_digit c'"
    and "xs @ c # r = ys @ c' # r'"
  shows "xs = ys \<and> r = r'"
proof -
  have "takeWhile is_digit (xs @ c # r) = xs" "takeWhile is_digit (ys @ c' # r') = ys"
    using assms(1-4) by (simp_all add: takeWhile_append list_all_iff)
  with assms(5) have "xs = ys" by simp
  with assms(5) show ?thesis by simp
qed

lemma not_digit_separators:
  "\<not> is_digit CHR ''-''" "\<not> is_digit CHR ''+''" "\<not> is_digit CHR ''T''" "\<not> is_digit CHR ''Z''"
  by (simp_all add: is_digit_def)

lemma pad_nat_Cons: "\<exists>c cs. pad_nat w n = c # cs \<and> is_digit c"
  using pad_nat_not_Nil [of w n] pad_nat_digits [of w n]
  by (cases "pad_nat w n") simp_all

lemma iso_year_then_dash:
  assumes "iso_year y @ CHR ''-'' # r = iso_year y' @ CHR ''-'' # r'"
  shows "y = y' \<and> r = r'"
proof -
  consider (small) "0 \<le> y \<and> y \<le> 9999" | (neg) "y < 0" | (big) "9999 < y" by linarith
  then show ?thesis
  proof cases
    case small
    consider (small') "0 \<le> y' \<and> y' \<le> 9999" | (neg') "y' < 0" | (big') "9999 < y'" by linarith
    then show ?thesis
    proof cases
      case small'
      with small assms have "pad_nat 4 (nat y) = pad_nat 4 (nat y') \<and> r = r'"
        by (intro digits_then_other [where c = "CHR ''-''" and c' = "CHR ''-''"])
           (simp_all add: iso_year_def pad_nat_digits not_digit_separators)
      with small small' show ?thesis using pad_nat_inj [of 4 "nat y" 4 "nat y'"] by auto
    next
      case neg'
      obtain c cs where "pad_nat 4 (nat y) = c # cs" "is_digit c" using pad_nat_Cons by blast
      with small neg' assms show ?thesis by (auto simp: iso_year_def not_digit_separators)
    next
      case big'
      obtain c cs where "pad_nat 4 (nat y) = c # cs" "is_digit c" using pad_nat_Cons by blast
      with small big' assms show ?thesis by (auto simp: iso_year_def not_digit_separators)
    qed
  next
    case neg
    consider (small') "0 \<le> y' \<and> y' \<le> 9999" | (neg') "y' < 0" | (big') "9999 < y'" by linarith
    then show ?thesis
    proof cases
      case small'
      obtain c cs where "pad_nat 4 (nat y') = c # cs" "is_digit c" using pad_nat_Cons by blast
      with neg small' assms show ?thesis by (auto simp: iso_year_def not_digit_separators)
    next
      case neg'
      with neg assms have "pad_nat 6 (nat (- y)) = pad_nat 6 (nat (- y')) \<and> r = r'"
        by (intro digits_then_other [where c = "CHR ''-''" and c' = "CHR ''-''"])
           (simp_all add: iso_year_def pad_nat_digits not_digit_separators)
      with neg neg' show ?thesis using pad_nat_inj [of 6 "nat (- y)" 6 "nat (- y')"] by auto
    next
      case big'
      with neg assms show ?thesis by (simp add: iso_year_def)
    qed
  next
    case big
    consider (small') "0 \<le> y' \<and> y' \<le> 9999" | (neg') "y' < 0" | (big') "9999 < y'" by linarith
    then show ?thesis
    proof cases
      case small'
      obtain c cs where "pad_nat 4 (nat y') = c # cs" "is_digit c" using pad_nat_Cons by blast
      with big small' assms show ?thesis by (auto simp: iso_year_def not_digit_separators)
    next
      case neg'
      with big assms show ?thesis by (simp add: iso_year_def)
    next
      case big'
      with big assms have "pad_nat 6 (nat y) = pad_nat 6 (nat y') \<and> r = r'"
        by (intro digits_then_other [where c = "CHR ''-''" and c' = "CHR ''-''"])
           (simp_all add: iso_year_def pad_nat_digits not_digit_separators)
      with big big' show ?thesis using pad_nat_inj [of 6 "nat y" 6 "nat y'"] by auto
    qed
  qed
qed

lemma pad_nat_then_other:
  assumes "pad_nat w n @ c # r = pad_nat w' n' @ c' # r'" "\<not> is_digit c" "\<not> is_digit c'"
  shows "n = n' \<and> r = r'"
  using digits_then_other [OF pad_nat_digits pad_nat_digits assms(2,3) assms(1)] pad_nat_inj
  by blast

lemma stamp_fields_inj:
  assumes "iso_year y @ ''-'' @ pad_nat 2 m @ ''-'' @ pad_nat 2 d @ ''T'' @ pad_nat 2 h @ ''-'' @
             pad_nat 2 mi @ ''-'' @ pad_nat 2 s @ ''-'' @ pad_nat 3 ms @ ''Z'' =
           iso_year y' @ ''-'' @ pad_nat 2 m' @ ''-'' @ pad_nat 2 d' @ ''T'' @ pad_nat 2 h' @ ''-'' @
             pad_nat 2 mi' @ ''-'' @ pad_nat 2 s' @ ''-'' @ pad_nat 3 ms' @ ''Z''"
  shows "y = y' \<and> m = m' \<and> d = d' \<and> h = h' \<and> mi = mi' \<and> s = s' \<and> ms = ms'"
proof -
  from assms have r0:
    "iso_year y @ CHR ''-'' # (pad_nat 2 m @ ''-'' @ pad_nat 2 d @ ''T'' @ pad_nat 2 h @ ''-'' @
             pad_nat 2 mi @ ''-'' @ pad_nat 2 s @ ''-'' @ pad_nat 3 ms @ ''Z'') =
     iso_year y' @ CHR ''-'' # (pad_nat 2 m' @ ''-'' @ pad_nat 2 d' @ ''T'' @ pad_nat 2 h' @ ''-'' @
             pad_nat 2 mi' @ ''-'' @ pad_nat 2 s' @ ''-'' @ pad_nat 3 ms' @ ''Z'')"
    by simp
  from iso_year_then_dash [OF r0] have 1: "y = y'" and
    r1: "pad_nat 2 m @ CHR ''-'' # (pad_nat 2 d @ ''T'' @ pad_nat 2 h @ ''-'' @
             pad_nat 2 mi @ ''-'' @ pad_nat 2 s @ ''-'' @ pad_nat 3 ms @ ''Z'') =
         pad_nat 2 m' @ CHR ''-'' # (pad_nat 2 d' @ ''T'' @ pad_nat 2 h' @ ''-'' @
             pad_nat 2 mi' @ ''-'' @ pad_nat 2 s' @ ''-'' @ pad_nat 3 ms' @ ''Z'')"
    by simp_all
  from pad_nat_then_other [OF r1] have 2: "m = m'" and
    r2: "pad_nat 2 d @ CHR ''T'' # (pad_nat 2 h @ ''-'' @
             pad_nat 2 mi @ ''-'' @ pad_nat 2 s @ ''-'' @ pad_nat 3 ms @ ''Z'') =
         pad_nat 2 d' @ CHR ''T'' # (pad_nat 2 h' @ ''-'' @
             pad_nat 2 mi' @ ''-'' @ pad_nat 2 s' @ ''-'' @ pad_nat 3 ms' @ ''Z'')"
    by (simp_all add: not_digit_separators)
  from pad_nat_then_other [OF r2] have 3: "d = d'" and
    r3: "pad_nat 2 h @ CHR ''-'' # (pad_nat 2 mi @ ''-'' @ pad_nat 2 s @ ''-'' @ pad_nat 3 ms @ ''Z'') =
         pad_nat 2 h' @ CHR ''-'' # (pad_nat 2 mi' @ ''-'' @ pad_nat 2 s' @ ''-'' @ pad_nat 3 ms' @ ''Z'')"
    by (simp_all add: not_digit_separators)
  from pad_nat_then_other [OF r3] have 4: "h = h'" and
    r4: "pad_nat 2 mi @ CHR ''-'' # (pad_nat 2 s @ ''-'' @ pad_nat 3 ms @ ''Z'') =
         pad_nat 2 mi' @ CHR ''-'' # (pad_nat 2 s' @ ''-'' @ pad_nat 3 ms' @ ''Z'')"
    by (simp_all add: not_digit_separators)
  from pad_nat_then_other [OF r4] have 5: "mi = mi'" and
    r5: "pad_nat 2 s @ CHR ''-'' # (pad_nat 3 ms @ ''Z'') =
         pad_nat 2 s' @ CHR ''-'' # (pad_nat 3 ms' @ ''Z'')"
    by (simp_all add: not_digit_separators)
  from pad_nat_then_other [OF r5] have 6: "s = s'" and
    r6: "pad_nat 3 ms @ CHR ''Z'' # [] = pad_nat 3 ms' @ CHR ''Z'' # []"
    by (simp_all add: not_digit_separators)
  from pad_nat_then_other [OF r6] have 7: "ms = ms'"
    by (simp_all add: not_digit_separators)
  from 1 2 3 4 5 6 7 show ?thesis by simp
qed

lemma replace_digits: "list_all is_digit s \<Longrightarrow> replace_colons_dots s = s"
  by (induction s) (auto simp: replace_colons_dots_def is_digit_def)

lemma replace_append: "replace_colons_dots (xs @ ys) = replace_colons_dots xs @ replace_colons_dots ys"
  by (simp add: replace_colons_dots_def)

lemma replace_pad_nat: "replace_colons_dots (pad_nat w n) = pad_nat w n"
  by (simp add: replace_digits pad_nat_digits)

lemma replace_Nil: "replace_colons_dots [] = []"
  by (simp add: replace_colons_dots_def)

lemma replace_Cons:
  "replace_colons_dots (c # s) =
     (if c = CHR '':'' \<or> c = CHR ''.'' then CHR ''-'' else c) # replace_colons_dots s"
  by (simp add: replace_colons_dots_def)

lemma replace_iso_year: "replace_colons_dots (iso_year y) = iso_year y"
  by (simp add: iso_year_def replace_append replace_pad_nat replace_Nil replace_Cons)

lemma timestamp_shape:
  "replace_colons_dots (toISOString t) =
     iso_year (YearFromDay (t div 86400000)) @ ''-'' @
     pad_nat 2 (fst (month_and_date (t div 86400000 - DayFromYear (YearFromDay (t div 86400000)))
        (InLeapYear (YearFromDay (t div 86400000))))) @ ''-'' @
     pad_nat 2 (nat (snd (month_and_date (t div 86400000 - DayFromYear (YearFromDay (t div 86400000)))
        (InLeapYear (YearFromDay (t div 86400000)))))) @ ''T'' @
     pad_nat 2 (nat (t div 3600000 mod 24)) @ ''-'' @
     pad_nat 2 (nat (t div 60000 mod 60)) @ ''-'' @
     pad_nat 2 (nat (t div 1000 mod 60)) @ ''-'' @
     pad_nat 3 (nat (t mod 1000)) @ ''Z''"
  by (simp add: toISOString_def Let_def case_prod_unfold replace_append replace_pad_nat
      replace_iso_year replace_Nil replace_Cons)

lemma timestamp_inj:
  assumes "replace_colons_dots (toISOString t1) = replace_colons_dots (toISOString t2)"
  shows "t1 = t2"
proof -
  let ?day1 = "t1 div 86400000" and ?day2 = "t2 div 86400000"
  from assms have f:
    "YearFromDay ?day1 = YearFromDay ?day2 \<and>
     fst (month_and_date (?day1 - DayFromYear (YearFromDay ?day1)) (InLeapYear (YearFromDay ?day1))) =
     fst (month_and_date (?day2 - DayFromYear (YearFromDay ?day2)) (InLeapYear (YearFromDay ?day2))) \<and>
     nat (snd (month_and_date (?day1 - DayFromYear (YearFromDay ?day1)) (InLeapYear (YearFromDay ?day1)))) =
     nat (snd (month_and_date (?day2 - DayFromYear (YearFromDay ?day2)) (InLeapYear (YearFromDay ?day2)))) \<and>
     nat (t1 div 3600000 mod 24) = nat (t2 div 3600000 mod 24) \<and>
     nat (t1 div 60000 mod 60) = nat (t2 div 60000 mod 60) \<and>
     nat (t1 div 1000 mod 60) = nat (t2 div 1000 mod 60) \<and>
     nat (t1 mod 1000) = nat (t2 mod 1000)"
    unfolding timestamp_shape by (rule stamp_fields_inj)
  then have "?day1 = ?day2" by (elim conjE) (rule day_determined)
  moreover have "t1 div 3600000 mod 24 = t2 div 3600000 mod 24"
    "t1 div 60000 mod 60 = t2 div 60000 mod 60"
    "t1 div 1000 mod 60 = t2 div 1000 mod 60"
    "t1 mod 1000 = t2 mod 1000"
    using f by (simp_all add: nat_eq_iff)
  ultimately show ?thesis by (rule time_determined)
qed

subsection \<open>File names\<close>

lemma fileName_eq_iff:
  "fileName songId ts1 fileType = fileName songId ts2 fileType \<longleftrightarrow> ts1 = ts2"
  by (simp add: fileName_def)

lemma saveFile_ok:
  assumes "\<not> write_fails e (path_join ''output''
      (fileName songId (replace_colons_dots (toISOString (clock e (ticks w)))) fileType))"
  shows "\<exists>w'. saveFile e content fileType songId w = Returns () w' \<and>
           disk w' = (path_join ''output''
             (fileName songId (replace_colons_dots (toISOString (clock e (ticks w)))) fileType),
             content) # disk w \<and>
           ticks w' = Suc (ticks w)"
  using assms
  by (simp add: saveFile_def writeFileSync_def and_then_def console_log_def Let_def)

lemma saveFile_cases:
  obtains (ok) w' where "saveFile e content fileType songId w = Returns () w'"
  | (fail) w' where "saveFile e content fileType songId w = Throws Other_error w'"
proof (cases "write_fails e (path_join ''output''
    (fileName songId (replace_colons_dots (toISOString (clock e (ticks w)))) fileType))")
  case True
  then show ?thesis
    by (intro fail) (simp add: saveFile_def writeFileSync_def and_then_def Let_def)
next
  case False
  then show ?thesis
    by (intro ok) (simp add: saveFile_def writeFileSync_def and_then_def Let_def)
qed

text \<open>
  The claim C8 as it is written fails when the clock gives the same reading at both saves:
  the two files have the same name, and the second write replaces the first.
\<close>

theorem two_saves_same_name_counterexample:
  "world_of (saveFile (example_env example_remote 1700000000123) ''second'' ''lrc'' ''song''
     (world_of (saveFile (example_env example_remote 1700000000123) ''first'' ''lrc'' ''song''
        (example_world [] [])))) =
   \<lparr>stdin = [],
    console = [Saved ''output/aligned_words_song_2023-11-14T22-13-20-123Z.lrc'',
               Saved ''output/aligned_words_song_2023-11-14T22-13-20-123Z.lrc''],
    disk = [(''output/aligned_words_song_2023-11-14T22-13-20-123Z.lrc'', ''second''),
            (''output/aligned_words_song_2023-11-14T22-13-20-123Z.lrc'', ''first'')],
    dirs = [''output''], requests = [], ticks = 2\<rparr>"
  by code_simp

text \<open>
  C8, amended. Two saves, one after the other, for the same song identifier and file type
  write two files, each named after the identifier, the time stamp of its own clock
  reading and the type; the two names are the same exactly when the two clock readings,
  in milliseconds, are the same.
\<close>

theorem two_saves_names:
  assumes "\<forall>p. \<not> write_fails e p"
  shows "\<exists>p1 p2 w1 w2.
           saveFile e content1 fileType songId w = Returns () w1 \<and>
           saveFile e content2 fileType songId w1 = Returns () w2 \<and>
           disk w2 = (p2, content2) # (p1, content1) # disk w \<and>
           p1 = path_join ''output''
             (fileName songId (replace_colons_dots (toISOString (clock e (ticks w)))) fileType) \<and>
           p2 = path_join ''output''
             (fileName songId (replace_colons_dots (toISOString (clock e (Suc (ticks w)))))
                fileType) \<and>
           (p1 = p2 \<longleftrightarrow> clock e (ticks w) = clock e (Suc (ticks w)))"
proof -
  let ?p1 = "path_join ''output''
      (fileName songId (replace_colons_dots (toISOString (clock e (ticks w)))) fileType)"
  let ?p2 = "path_join ''output''
      (fileName songId (replace_colons_dots (toISOString (clock e (Suc (ticks w))))) fileType)"
  from assms have "\<not> write_fails e ?p1" by simp
  from saveFile_ok [OF this] obtain w1 where
    w1: "saveFile e content1 fileType songId w = Returns () w1"
      "disk w1 = (?p1, content1) # disk w" "ticks w1 = Suc (ticks w)"
    by blast
  from assms have "\<not> write_fails e (path_join ''output''
      (fileName songId (replace_colons_dots (toISOString (clock e (ticks w1)))) fileType))"
    by simp
  from saveFile_ok [OF this] obtain w2 where
    w2: "saveFile e content2 fileType songId w1 = Returns () w2"
      "disk w2 = (?p2, content2) # disk w1"
    using w1(3) by auto
  have "?p1 = ?p2 \<longleftrightarrow>
      replace_colons_dots (toISOString (clock e (ticks w))) =
      replace_colons_dots (toISOString (clock e (Suc (ticks w))))"
    by (simp add: path_join_def fileName_eq_iff)
  then have "?p1 = ?p2 \<longleftrightarrow> clock e (ticks w) = clock e (Suc (ticks w))"
    using timestamp_inj [of "clock e (ticks w)" "clock e (Suc (ticks w))"] by auto
  with w1 w2 show ?thesis by auto
qed

theorem two_saves_names_witness:
  "(\<forall>p. \<not> write_fails (ticking_env example_remote 1700000000123) p) \<and>
   (\<exists>p1 p2 w1 w2.
      saveFile (ticking_env example_remote 1700000000123) ''first'' ''lrc'' ''song''
        (example_world [] []) = Returns () w1 \<and>
      saveFile (ticking_env example_remote 1700000000123) ''second'' ''lrc'' ''song'' w1 =
        Returns () w2 \<and>
      disk w2 = (p2, ''second'') # (p1, ''first'') # disk (example_world [] []) \<and>
      p1 \<noteq> p2)"
  using two_saves_names [of "ticking_env example_remote 1700000000123" "''first''" "''lrc''"
      "''song''" "example_world [] []" "''second''"]
  by (simp add: ticking_env_def example_world_def) blast

section \<open>The token store\<close>

text \<open>
  The requests that \<open>loadToken\<close> sends, path by path: the validation sends exactly one
  probe; the path that reuses the saved token and the path that asks for a token because
  none is saved both reach it; the path that declines the saved token sends nothing.
\<close>

lemma ask_requests: "requests (world_of (ask question w)) = requests w"
  by (simp add: ask_def world_of_def console_log_def Let_def split: list.splits)

lemma validate_token_probes_once:
  "requests (world_of (validate_token e token w)) = requests w @ [(''dummy-check'', token)]"
proof (cases rule: fetch_cases [of e "''dummy-check''" token w])
  case (words v w')
  then show ?thesis
    using fetch_requests [of e "''dummy-check''" token w]
    by (simp add: validate_token_def world_of_def)
next
  case (null w')
  then show ?thesis
    using fetch_requests [of e "''dummy-check''" token w]
    by (simp add: validate_token_def world_of_def)
next
  case (auth w')
  then have r: "requests w' = requests w @ [(''dummy-check'', token)]"
    using fetch_requests [of e "''dummy-check''" token w] by (simp add: world_of_def)
  show ?thesis
    using auth r
    by (simp add: validate_token_def world_of_def and_then_def ask_def console_log_def
        writeFileSync_def Let_def split: list.splits)
next
  case hang
  then show ?thesis
    by (simp add: validate_token_def world_of_def)
qed

lemma loadToken_reuse_probes_once:

  assumes "existsSync TOKEN_FILE w" and "trim (readFileSync TOKEN_FILE w) \<noteq> ''''"
    and "stdin w = choice # rest" and "toLowerCase choice \<noteq> ''n''"
  shows "requests (world_of (loadToken e w)) =
           requests w @ [(''dummy-check'', trim (readFileSync TOKEN_FILE w))]"
  using assms validate_token_probes_once
  by (simp add: loadToken_def enter_if_missing_def and_then_def ask_def console_log_def Let_def)

lemma loadToken_entry_probes_once:
  assumes "\<not> (existsSync TOKEN_FILE w \<and> trim (readFileSync TOKEN_FILE w) \<noteq> '''')"
    and "stdin w = token # rest" and "\<not> write_fails e TOKEN_FILE"
  shows "requests (world_of (loadToken e w)) = requests w @ [(''dummy-check'', token)]"
proof -
  have "loadToken e w = enter_if_missing e None w"
    using assms(1) unfolding loadToken_def by (rule if_not_P)
  then show ?thesis
    using assms(2,3) validate_token_probes_once
    by (simp add: enter_if_missing_def and_then_def ask_def console_log_def
        writeFileSync_def Let_def)
qed

lemma loadToken_decline_no_probe:
  assumes "existsSync TOKEN_FILE w" and "trim (readFileSync TOKEN_FILE w) \<noteq> ''''"
    and "stdin w = choice # rest" and "toLowerCase choice = ''n''"
  shows "requests (world_of (loadToken e w)) = requests w"
  using assms
  by (simp add: loadToken_def and_then_def ask_def console_log_def writeFileSync_def
      world_of_def Let_def split: list.splits)

text \<open>
  C7. The claim asks for one validation probe on every path of \<open>loadToken\<close>. With a saved
  token \<open>saved\<close>, the answer \<open>n\<close> and then the new token \<open>fresh\<close>, \<open>loadToken\<close> returns
  \<open>fresh\<close> without any request, although the remote would have rejected it: the branch
  returns before the validation.
\<close>

theorem loadToken_decline_skips_probe:
  "loadToken (example_env (\<lambda>songId. Response 401 Not_an_object) 0)
     (example_world [''n'', ''fresh''] [(''token.txt'', ''saved'')]) =
   Returns ''fresh''
     \<lparr>stdin = [],
      console = [Found_saved_token ''saved'', Question ''Use this token? (Y/n): '',
                 Question ''Enter new Bearer token: '', New_token_saved],
      disk = [(''token.txt'', ''fresh''), (''token.txt'', ''saved'')],
      dirs = [], requests = [], ticks = 0\<rparr>"
  by code_simp

text \<open>
  On the path without a saved token the newly entered token is probed, once.
\<close>

lemma loadToken_no_saved_probes_once:
  "loadToken (example_env (\<lambda>songId. Response 404 Not_an_object) 0)
     (example_world [''fresh''] [(''token.txt'', '''')]) =
   Returns ''fresh''
     \<lparr>stdin = [],
      console = [Question ''Enter Bearer token: '', Token_saved_for_future_runs,
                 Error_fetching ''dummy-check''],
      disk = [(''token.txt'', ''fresh''), (''token.txt'', '''')],
      dirs = [], requests = [(''dummy-check'', ''fresh'')], ticks = 0\<rparr>"
  by code_simp

section \<open>The driver\<close>

lemma saveFile_requests:
  assumes "saveFile e content fileType songId w = Hangs w'"
  shows False
  using assms by (cases rule: saveFile_cases [of e content fileType songId w]) simp_all

text \<open>
  The loop never throws: it returns, or it stops in a request that nothing comes back for.
\<close>

lemma main_loop_outcome:
  "(\<exists>w'. main_loop e fileType token songIds w = Returns () w') \<or>
   (\<exists>w'. main_loop e fileType token songIds w = Hangs w' \<and> unanswered e w')"
proof (induction songIds arbitrary: w)
  case Nil
  show ?case by simp
next
  case (Cons songId songIds)
  show ?case
  proof (cases rule: fetch_cases [of e songId token "console_log (Fetching songId) w"])
    case (words v w')
    show ?thesis
    proof (cases v)
      case (Word_array ws)
      show ?thesis
        using words Word_array Cons.IH
        by (cases rule: saveFile_cases
              [of e "if fileType = ''srt'' then convertToSRT (time_zone e) ws
                     else convertToLRC (time_zone e) ws" fileType songId w'])
           (simp_all add: Let_def)
    qed (use words Cons.IH in simp_all)
  next
    case (null w')
    then show ?thesis using Cons.IH by simp
  next
    case (auth w')
    then show ?thesis by simp
  next
    case hang
    then show ?thesis
      using fetch_hangs [OF hang] by simp
  qed
qed

lemma process_songs_outcome:
  "(\<exists>w'. process_songs e fileType token songIds w = Returns () w' \<and>
         last (console w') = All_done) \<or>
   (\<exists>w'. process_songs e fileType token songIds w = Hangs w' \<and> unanswered e w')"
  using main_loop_outcome [of e fileType token songIds w]
  by (auto simp: process_songs_def and_then_def console_log_def)

lemma unanswered_reply:
  assumes "unanswered e w"
  shows "\<exists>k songId token. spec_fetch (max_redirects e) (remote e k songId token) = None"
  using assms by (auto simp: unanswered_def split: list.splits)

text \<open>
  C6. The loop and the message after it never throw. They end with the message
  \<open>All_done\<close> unless the run stops in a request that nothing comes back for; so they
  always end with it when every request gets a reply. When the fetch for the identifier at
  the head gives \<open>null\<close>, the loop prints the warning and goes on with the identifiers
  after it. When that fetch fails with the authentication error, the loop stops: the
  console gets the fetching line, the invalid-token line and \<open>All_done\<close>, the only request
  is the one that failed, and nothing else changes, whatever identifiers follow.
\<close>

theorem driver_loop:
  "((\<exists>w'. process_songs e fileType token songIds w = Returns () w' \<and>
          last (console w') = All_done) \<or>
    (\<exists>w'. process_songs e fileType token songIds w = Hangs w' \<and> unanswered e w')) \<and>
   ((\<forall>k songId token. spec_fetch (max_redirects e) (remote e k songId token) \<noteq> None) \<longrightarrow>
    (\<exists>w'. process_songs e fileType token songIds w = Returns () w' \<and>
          last (console w') = All_done)) \<and>
   (spec_fetch (max_redirects e) (remote e (length (requests w)) songId token) =
      Some (Inr None) \<longrightarrow>
    main_loop e fileType token (songId # songIds) w =
      main_loop e fileType token songIds
        (console_log (No_words_for songId)
           (world_of (fetchAlignedWords e songId token (console_log (Fetching songId) w))))) \<and>
   (spec_fetch (max_redirects e) (remote e (length (requests w)) songId token) =
      Some (Inl TOKEN_INVALID) \<longrightarrow>
    process_songs e fileType token (songId # songIds) w =
      Returns ()
        (w\<lparr>console := console w @ [Fetching songId, Token_invalid_run_again, All_done],
           requests := requests w @ [(songId, token)]\<rparr>))"
proof (intro conjI impI)
  show "(\<exists>w'. process_songs e fileType token songIds w = Returns () w' \<and>
          last (console w') = All_done) \<or>
    (\<exists>w'. process_songs e fileType token songIds w = Hangs w' \<and> unanswered e w')"
    by (rule process_songs_outcome)
next
  assume "\<forall>k songId token. spec_fetch (max_redirects e) (remote e k songId token) \<noteq> None"
  then have "\<not> unanswered e w'" for w'
    using unanswered_reply [of e w'] by blast
  then show "\<exists>w'. process_songs e fileType token songIds w = Returns () w' \<and>
         last (console w') = All_done"
    using process_songs_outcome [of e fileType token songIds w] by blast
next
  assume "spec_fetch (max_redirects e) (remote e (length (requests w)) songId token) =
      Some (Inr None)"
  then have "spec_fetch (max_redirects e)
      (remote e (length (requests (console_log (Fetching songId) w))) songId token) =
      Some (Inr None)"
    by (simp add: console_log_def)
  then obtain w1 where
    "fetchAlignedWords e songId token (console_log (Fetching songId) w) = Returns None w1"
    by (rule fetch_null)
  then show "main_loop e fileType token (songId # songIds) w =
        main_loop e fileType token songIds
          (console_log (No_words_for songId)
             (world_of (fetchAlignedWords e songId token (console_log (Fetching songId) w))))"
    by (simp add: world_of_def)
next
  assume "spec_fetch (max_redirects e) (remote e (length (requests w)) songId token) =
      Some (Inl TOKEN_INVALID)"
  then have "spec_fetch (max_redirects e)
      (remote e (length (requests (console_log (Fetching songId) w))) songId token) =
      Some (Inl TOKEN_INVALID)"
    by (simp add: console_log_def)
  from fetch_401 [OF this]
  show "process_songs e fileType token (songId # songIds) w =
        Returns ()
          (w\<lparr>console := console w @ [Fetching songId, Token_invalid_run_again, All_done],
             requests := requests w @ [(songId, token)]\<rparr>)"
    by (simp add: process_songs_def and_then_def console_log_def)
qed

lemma example_remote_answers:
  "spec_fetch (max_redirects (example_env example_remote 0))
     (remote (example_env example_remote 0) k songId token) \<noteq> None"
  by (simp add: example_env_def example_remote_def spec_fetch_def aligned_words_def)

theorem driver_loop_witness:
  "(\<forall>k songId token.
      spec_fetch (max_redirects (example_env example_remote 0))
        (remote (example_env example_remote 0) k songId token) \<noteq> None) \<and>
   process_songs (example_env example_remote 0) ''lrc'' ''token'' [''empty'', ''expired'', ''later'']
      (example_world [] []) =
     Returns ()
       ((example_world [] [])
          \<lparr>console := [Fetching ''empty'', No_words_for ''empty'', Fetching ''expired'',
                       Token_invalid_run_again, All_done],
           requests := [(''empty'', ''token''), (''expired'', ''token'')]\<rparr>) \<and>
   spec_fetch (max_redirects (example_env example_remote 0))
     (remote (example_env example_remote 0) (length (requests (example_world [] [])))
        ''empty'' ''token'') = Some (Inr None) \<and>
   main_loop (example_env example_remote 0) ''lrc'' ''token'' [''empty'', ''expired'', ''later'']
      (example_world [] []) =
     main_loop (example_env example_remote 0) ''lrc'' ''token'' [''expired'', ''later'']
       ((example_world [] [])
          \<lparr>console := [Fetching ''empty'', No_words_for ''empty''],
           requests := [(''empty'', ''token'')]\<rparr>) \<and>
   spec_fetch (max_redirects (example_env example_remote 0))
     (remote (example_env example_remote 0) (length (requests (example_world [] [])))
        ''expired'' ''token'') = Some (Inl TOKEN_INVALID) \<and>
   process_songs (example_env example_remote 0) ''lrc'' ''token'' [''expired'', ''later'']
      (example_world [] []) =
     Returns ()
       ((example_world [] [])
          \<lparr>console := [Fetching ''expired'', Token_invalid_run_again, All_done],
           requests := [(''expired'', ''token'')]\<rparr>)"
  using driver_loop [of "example_env example_remote 0" "''lrc''" "''token''"
      "[''expired'', ''later'']" "example_world [] []" "''empty''"]
    driver_loop [of "example_env example_remote 0" "''lrc''" "''token''"
      "[''later'']" "example_world [] []" "''expired''"]
    example_remote_answers
  by (simp add: spec_fetch_def example_env_def example_remote_def example_world_def
      fetchAlignedWords_def aligned_words_def world_of_def console_log_def
      process_songs_def and_then_def)

text \<open>
  A request that nothing comes back for stops the run before the final message.
\<close>

lemma silent_request_hangs:
  "process_songs (example_env (\<lambda>songId. NoAnswer) 0) ''lrc'' ''token'' [''song'']
     (example_world [] []) =
   Hangs ((example_world [] [])\<lparr>console := [Fetching ''song''],
                                 requests := [(''song'', ''token'')]\<rparr>)"
  by (simp add: process_songs_def and_then_def fetchAlignedWords_def example_env_def
      example_world_def console_log_def)

end
